theory Spec2Isabelle
  imports Complex_Main "HOL-Library.Word"
begin

section \<open>Python values and exceptions\<close>

text \<open>
  The notebook \<open>2.2-Pretrained-ResNet-Imagenet.ipynb\<close> catches no exception, so every
  raise ends the cell that is running. The exceptions that the modelled statements can
  raise are the constructors of \<open>error\<close>.
\<close>

datatype error =
    NameError string
  | KeyError string
  | IndexError
  | TypeError
  | ValueError
  | RuntimeError
  | ZeroDivisionError
  | URLError
  | JSONDecodeError
  | IOError

text \<open>Python's class hierarchy: \<open>KeyError\<close> and \<open>IndexError\<close> derive from \<open>LookupError\<close>.\<close>

fun is_LookupError :: "error \<Rightarrow> bool" where
  "is_LookupError (KeyError k) = True"
| "is_LookupError IndexError = True"
| "is_LookupError e = False"

text \<open>
  The values \<open>json.loads\<close> can return: a JSON object becomes a dict with string keys
  (an association list read with \<open>map_of\<close>), an array becomes a list. JSON numbers
  with a fraction are kept as exact rationals.
\<close>

datatype pyval =
    PNone
  | PBool bool
  | PInt int
  | PFloat rat
  | PStr string
  | PList "pyval list"
  | PDict "(string \<times> pyval) list"

section \<open>Images and tensors\<close>

text \<open>
  A PIL image: its mode, its size as PIL gives it (width, height), and the sample of
  band \<open>c\<close> at column \<open>x\<close>, row \<open>y\<close>. Samples are unsigned bytes.
\<close>

datatype mode = L | RGB | RGBA

fun nbands :: "mode \<Rightarrow> nat" where
  "nbands L = 1"
| "nbands RGB = 3"
| "nbands RGBA = 4"

record image =
  im_mode :: mode
  im_size :: "nat \<times> nat"
  px :: "nat \<Rightarrow> nat \<Rightarrow> nat \<Rightarrow> 8 word"

text \<open>
  A tensor: its shape and the element at a multi-index. Elements are exact rationals;
  the rounding of 32-bit floats is not modelled.
\<close>

record tensor =
  shape :: "nat list"
  elem :: "nat list \<Rightarrow> rat"

text \<open>
  What flows through a \<open>transforms.Compose\<close>: Python is dynamically typed, a transform
  receives either an image or a tensor.
\<close>

datatype tv = Img image | Tns tensor

text \<open>
  PIL's resampling filter (bilinear, behind \<open>Image.resize\<close>) is library code that is not
  part of the notebook. It is a parameter: from one band of the old image, the old size
  and the new size it gives the band of the new image. PIL resamples each band on its own.
\<close>

type_synonym plane = "nat \<Rightarrow> nat \<Rightarrow> 8 word"
type_synonym resampler = "plane \<Rightarrow> nat \<times> nat \<Rightarrow> nat \<times> nat \<Rightarrow> plane"

definition pil_resize :: "resampler \<Rightarrow> nat \<times> nat \<Rightarrow> image \<Rightarrow> image" where
  "pil_resize rs new im =
     \<lparr>im_mode = im_mode im, im_size = new, px = (\<lambda>c. rs (px im c) (im_size im) new)\<rparr>"

section \<open>The torchvision transforms used by \<open>preproc\<close>\<close>

text \<open>
  Modelled from the spec: \<open>transforms.Resize\<close> is torchvision code, not part of the repository.
  Spec 4.2: "resize so the shorter side equals 256 units". The other side is scaled by
  the same ratio and truncated (\<open>int(size * h / w)\<close>); an image whose shorter side
  already has the requested length is returned as it is; a side of length 0 makes the
  division raise.
\<close>

definition resize :: "resampler \<Rightarrow> nat \<Rightarrow> image \<Rightarrow> error + image" where
  "resize rs s im =
     (let (w, h) = im_size im in
      if (w \<le> h \<and> w = s) \<or> (h \<le> w \<and> h = s) then Inr im
      else if w < h then
        (if w = 0 then Inl ZeroDivisionError else Inr (pil_resize rs (s, s * h div w) im))
      else
        (if h = 0 then Inl ZeroDivisionError else Inr (pil_resize rs (s * w div h, s) im)))"

text \<open>Python's \<open>int(round(d / 2.))\<close> for an integer \<open>d\<close>: halves round to the even neighbour.\<close>

definition round_half :: "int \<Rightarrow> int" where
  "round_half d = (let k = d div 2 in if even d then k else if even k then k else k + 1)"

text \<open>
  PIL's \<open>Image.crop((left, upper, left + tw, upper + th))\<close>: the result always has size
  (tw, th); samples outside the source image are 0.
\<close>

definition pil_crop :: "int \<Rightarrow> int \<Rightarrow> nat \<Rightarrow> nat \<Rightarrow> image \<Rightarrow> image" where
  "pil_crop left upper tw th im =
     \<lparr>im_mode = im_mode im, im_size = (tw, th),
      px = (\<lambda>c x y.
        let sx = left + int x; sy = upper + int y in
        if 0 \<le> sx \<and> sx < int (fst (im_size im)) \<and> 0 \<le> sy \<and> sy < int (snd (im_size im))
        then px im c (nat sx) (nat sy) else 0)\<rparr>"

text \<open>
  Modelled from the spec: \<open>transforms.CenterCrop\<close> is torchvision code, not part of the repository.
  Spec 4.2: "center-crop to 224x224"; the glossary: "extracting a fixed-size region from
  the middle of an image". The region starts at half the surplus of each side.
\<close>

definition center_crop :: "nat \<Rightarrow> image \<Rightarrow> image" where
  "center_crop s im =
     (let (w, h) = im_size im;
          i = round_half (int h - int s);
          j = round_half (int w - int s)
      in pil_crop j i s s im)"

text \<open>
  Modelled from the spec: \<open>transforms.ToTensor\<close> is torchvision code, not part of the repository.
  Spec 4.2: "scale integer pixel values to [0,1]"; spec 3: the array is channels x height
  x width. A byte \<open>v\<close> becomes \<open>v / 255\<close>.
\<close>

definition to_tensor :: "image \<Rightarrow> tensor" where
  "to_tensor im =
     \<lparr>shape = [nbands (im_mode im), snd (im_size im), fst (im_size im)],
      elem = (\<lambda>idx. case idx of
                [c, y, x] \<Rightarrow> rat_of_nat (unat (px im c x y)) / 255
              | _ \<Rightarrow> 0)\<rparr>"

text \<open>
  Modelled from the spec: \<open>transforms.Normalize\<close> is torchvision code, not part of the repository.
  Spec 4.2: "channel-wise standardization with the fixed mean/std constants": channel
  \<open>c\<close> becomes \<open>(t - mean[c]) / std[c]\<close>. A tensor that is not channels x height x width
  with one channel per constant is refused.
\<close>

definition normalize :: "rat list \<Rightarrow> rat list \<Rightarrow> tensor \<Rightarrow> error + tensor" where
  "normalize mean std t =
     (if length (shape t) = 3 \<and> hd (shape t) = length mean \<and> length mean = length std
      then Inr \<lparr>shape = shape t,
                elem = (\<lambda>idx. case idx of
                          c # rest \<Rightarrow> (elem t idx - mean ! c) / std ! c
                        | [] \<Rightarrow> elem t idx)\<rparr>
      else Inl RuntimeError)"

datatype transform =
    Resize nat
  | CenterCrop nat
  | ToTensor
  | Normalize "rat list" "rat list"

text \<open>Calling one transform: each checks the kind of value it is given.\<close>

fun apply_transform :: "resampler \<Rightarrow> transform \<Rightarrow> tv \<Rightarrow> error + tv" where
  "apply_transform rs (Resize s) (Img im) = map_sum id Img (resize rs s im)"
| "apply_transform rs (Resize s) (Tns t) = Inl TypeError"
| "apply_transform rs (CenterCrop s) (Img im) = Inr (Img (center_crop s im))"
| "apply_transform rs (CenterCrop s) (Tns t) = Inl TypeError"
| "apply_transform rs ToTensor (Img im) = Inr (Tns (to_tensor im))"
| "apply_transform rs ToTensor (Tns t) = Inl TypeError"
| "apply_transform rs (Normalize mean std) (Tns t) = map_sum id Tns (normalize mean std t)"
| "apply_transform rs (Normalize mean std) (Img im) = Inl TypeError"

text \<open>
  \<open>transforms.Compose(ts)(x)\<close>: \<open>for t in ts: x = t(x)\<close>, in list order; the first raise
  ends the call.
\<close>

fun Compose :: "resampler \<Rightarrow> transform list \<Rightarrow> tv \<Rightarrow> error + tv" where
  "Compose rs [] x = Inr x"
| "Compose rs (t # ts) x =
     (case apply_transform rs t x of Inl e \<Rightarrow> Inl e | Inr x' \<Rightarrow> Compose rs ts x')"

text \<open>\<open>torch.Tensor(x)\<close> of a tensor keeps shape and elements; \<open>unsqueeze(0)\<close> adds a
  leading dimension of size 1.\<close>

fun torch_Tensor :: "tv \<Rightarrow> error + tensor" where
  "torch_Tensor (Tns t) = Inr t"
| "torch_Tensor (Img im) = Inl TypeError"

definition unsqueeze0 :: "tensor \<Rightarrow> tensor" where
  "unsqueeze0 t = \<lparr>shape = 1 # shape t, elem = (\<lambda>idx. elem t (tl idx))\<rparr>"

section \<open>Opening an image\<close>

text \<open>
  Modelled from the spec: \<open>Image.convert\<close> is PIL code, not part of the repository. Spec 8: a
  single-channel image after RGB coercion is "identical to replicating the channel
  three times"; spec 6: images are "converted to RGB". A grey image gets its one band
  in each of R, G and B; an RGB image stays as it is; RGBA loses its alpha band.
\<close>

definition convert_RGB :: "image \<Rightarrow> image" where
  "convert_RGB im =
     (case im_mode im of
        L \<Rightarrow> \<lparr>im_mode = RGB, im_size = im_size im, px = (\<lambda>c. px im 0)\<rparr>
      | RGB \<Rightarrow> im
      | RGBA \<Rightarrow> \<lparr>im_mode = RGB, im_size = im_size im, px = px im\<rparr>)"

section \<open>The notebook's state\<close>

text \<open>
  A loaded \<open>nn.Module\<close>: its mode flag (\<open>.training\<close>), its parameters and buffers
  (\<open>'w\<close>, opaque), and whether its parameters ask for gradients.
\<close>

record 'w module =
  training :: bool
  state_dict :: 'w
  params_require_grad :: bool

text \<open>The result of a forward call: the scores (batch x classes) and the autograd flag.\<close>

record out_tensor =
  data :: "rat list list"
  requires_grad :: bool

text \<open>
  The kernel's state: the module names bound by the \<open>import\<close> statements of the cells
  below (the names of the notebook's first cell, \<open>torch\<close>, \<open>transforms\<close>, \<open>Image\<close> and
  the others, are taken as bound), the global variables (\<open>None\<close> = not bound yet),
  torch's global gradient mode, and the log of the tensors that were handed to the
  model's forward function (instrumentation: the code has no such variable; only
  \<open>call_model\<close> below writes it).
\<close>

record 'w nb_state =
  modules :: "string set"
  url :: "string option"
  model :: "'w module option"
  class_idx :: "pyval option"
  img :: "image option"
  "output" :: "out_tensor option"
  class_id :: "int option"
  grad_enabled :: bool
  forward_log :: "tensor list"

text \<open>
  The library calls whose results the notebook only passes on. They are parameters of
  the model: the resampling filter, the download of the pretrained weights, the
  network's forward function in evaluation mode and in training mode (where batch
  normalisation also updates its running statistics, part of the module's state), the
  HTTP fetch, the JSON decoder and the image decoder.
\<close>

record 'w lib =
  resample :: resampler
  pretrained_weights :: "error + 'w"
  eval_forward :: "'w \<Rightarrow> tensor \<Rightarrow> error + rat list list"
  train_forward :: "'w \<Rightarrow> tensor \<Rightarrow> error + 'w \<times> rat list list"
  urlopen_read :: "string \<Rightarrow> error + string"
  json_loads :: "string \<Rightarrow> error + pyval"
  Image_open :: "string \<Rightarrow> error + image"

section \<open>\<open>preproc\<close>\<close>

text \<open>
  \<^verbatim>\<open>
  def preproc(x):
      x = img
      t = transforms.Compose([
          transforms.Resize(256),
          transforms.CenterCrop(224),
          transforms.ToTensor(),
          transforms.Normalize(mean=[0.485, 0.456, 0.406], std=[0.229, 0.224, 0.225])
      ])
      x = t(x)
      x = torch.Tensor(x).unsqueeze(0)
      return x
  \<close>
  The first statement overwrites the parameter with the global \<open>img\<close>; reading a global
  that is not bound raises NameError.
\<close>

definition preproc_mean :: "rat list" where
  "preproc_mean = [0.485, 0.456, 0.406]"

definition preproc_std :: "rat list" where
  "preproc_std = [0.229, 0.224, 0.225]"

definition preproc_t :: "transform list" where
  "preproc_t = [Resize 256, CenterCrop 224, ToTensor, Normalize preproc_mean preproc_std]"

definition preproc :: "resampler \<Rightarrow> ('w, 'z) nb_state_scheme \<Rightarrow> 'x \<Rightarrow> error + tensor" where
  "preproc rs st x =
     (case img st of
        None \<Rightarrow> Inl (NameError ''img'')
      | Some x1 \<Rightarrow>
          (case Compose rs preproc_t (Img x1) of
             Inl e \<Rightarrow> Inl e
           | Inr x2 \<Rightarrow>
               (case torch_Tensor x2 of
                  Inl e \<Rightarrow> Inl e
                | Inr x3 \<Rightarrow> Inr (unsqueeze0 x3))))"

section \<open>Label resolution\<close>

text \<open>Python's \<open>str\<close> on an integer: the decimal digits, a minus sign in front of a
  negative number, no leading zeros.\<close>

definition digit_char :: "nat \<Rightarrow> char" where
  "digit_char d = ''0123456789'' ! d"

fun str_nat :: "nat \<Rightarrow> string" where
  "str_nat n = (if n < 10 then [digit_char n] else str_nat (n div 10) @ [digit_char (n mod 10)])"

declare str_nat.simps [simp del]

definition str_int :: "int \<Rightarrow> string" where
  "str_int i = (if i < 0 then CHR ''-'' # str_nat (nat (- i)) else str_nat (nat i))"

text \<open>The value of a decimal string, read back digit by digit (used to show that \<open>str\<close> is injective).\<close>

definition digit_val :: "char \<Rightarrow> nat" where
  "digit_val c = of_char c - 48"

definition val_nat :: "string \<Rightarrow> nat" where
  "val_nat s = foldl (\<lambda>a c. 10 * a + digit_val c) 0 s"

text \<open>
  \<open>v[k]\<close> with a string key \<open>k\<close>: a dict looks the key up and raises KeyError when it
  is missing; a list, a string and every other value raise TypeError.
\<close>

fun getitem_str :: "pyval \<Rightarrow> string \<Rightarrow> error + pyval" where
  "getitem_str (PDict kvs) k = (case map_of kvs k of None \<Rightarrow> Inl (KeyError k) | Some v \<Rightarrow> Inr v)"
| "getitem_str v k = Inl TypeError"

text \<open>
  The result of \<open>squeeze\<close> on a two-dimensional tensor (given as its rows): every
  dimension of size 1 is removed, which leaves a scalar, a vector or the matrix itself.
\<close>

datatype 'a squeezed = Scalar 'a | Vec "'a list" | Mat "'a list list"

definition squeeze :: "'a list list \<Rightarrow> 'a squeezed" where
  "squeeze rows =
     (case rows of
        [[x]] \<Rightarrow> Scalar x
      | [row] \<Rightarrow> Vec row
      | _ \<Rightarrow> if rows \<noteq> [] \<and> list_all (\<lambda>r. length r = 1) rows
             then Vec (map hd rows) else Mat rows)"

text \<open>
  Modelled from the spec: \<open>Tensor.max(dim)\<close> is torch code, not part of the repository. Spec 4.4:
  "the index of the maximum element (ties broken by lowest index, matching standard
  argmax semantics)". One scan from the left: \<open>m\<close> is the largest value so far, \<open>k\<close>
  its index, \<open>i\<close> the index of the next element; only a strictly larger element
  replaces the candidate. Scores are taken from a linear order (no NaN).
\<close>

fun first_max :: "'a::linorder \<Rightarrow> nat \<Rightarrow> nat \<Rightarrow> 'a list \<Rightarrow> 'a \<times> nat" where
  "first_max m k i [] = (m, k)"
| "first_max m k i (x # xs) =
     (if m < x then first_max x i (Suc i) xs else first_max m k (Suc i) xs)"

text \<open>
  \<open>t.max(0)\<close> returns the pair (values, indices): of a vector its maximum and the
  index; of a scalar the scalar and index 0; of a matrix the maximum of each column.
  Reducing an empty dimension raises.
\<close>

definition max0 :: "'a::linorder squeezed \<Rightarrow> error + ('a squeezed \<times> nat squeezed)" where
  "max0 t =
     (case t of
        Scalar x \<Rightarrow> Inr (Scalar x, Scalar 0)
      | Vec v \<Rightarrow>
          (case v of
             [] \<Rightarrow> Inl RuntimeError
           | x # xs \<Rightarrow> Inr (Scalar (fst (first_max x 0 1 xs)), Scalar (snd (first_max x 0 1 xs))))
      | Mat rows \<Rightarrow>
          (case rows of
             [] \<Rightarrow> Inl RuntimeError
           | r # rs \<Rightarrow>
               Inr (Vec (map (\<lambda>j. fst (first_max (r ! j) 0 1 (map (\<lambda>q. q ! j) rs))) [0..<length r]),
                    Vec (map (\<lambda>j. snd (first_max (r ! j) 0 1 (map (\<lambda>q. q ! j) rs))) [0..<length r]))))"

text \<open>\<open>t.item()\<close>: the value of a tensor with exactly one element, ValueError otherwise.\<close>

fun item :: "'a squeezed \<Rightarrow> error + 'a" where
  "item (Scalar x) = Inr x"
| "item (Vec [x]) = Inr x"
| "item (Mat [[x]]) = Inr x"
| "item t = Inl ValueError"

text \<open>
  \<^verbatim>\<open>
  m, argm = output.data.squeeze().max(0)
  class_id = argm.item()
  \<close>
\<close>

definition predict_class :: "'a::linorder list list \<Rightarrow> error + int" where
  "predict_class scores =
     (case max0 (squeeze scores) of
        Inl e \<Rightarrow> Inl e
      | Inr (m, argm) \<Rightarrow> (case item argm of Inl e \<Rightarrow> Inl e | Inr i \<Rightarrow> Inr (int i)))"

text \<open>\<^verbatim>\<open>class_idx[str(class_id)]\<close>\<close>

definition lookup_label :: "pyval \<Rightarrow> int \<Rightarrow> error + pyval" where
  "lookup_label tbl ci = getitem_str tbl (str_int ci)"


section \<open>The cells\<close>

text \<open>
  A cell maps the state to the value it displays (or the exception that ended it) and
  the state it leaves. Assignments made before a raise stay.
\<close>

text \<open>\<^verbatim>\<open>model = resnet152(pretrained=True).eval()\<close>: a new module is in training mode and
  its parameters ask for gradients; \<open>.eval()\<close> clears the mode flag and nothing else.\<close>

definition resnet152 :: "'w lib \<Rightarrow> error + 'w module" where
  "resnet152 lib =
     (case pretrained_weights lib of
        Inl e \<Rightarrow> Inl e
      | Inr w \<Rightarrow> Inr \<lparr>training = True, state_dict = w, params_require_grad = True\<rparr>)"

definition eval :: "'w module \<Rightarrow> 'w module" where
  "eval m = m\<lparr>training := False\<rparr>"

definition load_model :: "'w lib \<Rightarrow> 'w nb_state \<Rightarrow> (error + pyval) \<times> 'w nb_state" where
  "load_model lib st =
     (case resnet152 lib of
        Inl e \<Rightarrow> (Inl e, st)
      | Inr m \<Rightarrow> (Inr PNone, st\<lparr>model := Some (eval m)\<rparr>))"

text \<open>
  \<^verbatim>\<open>
  import json
  import urllib
  url = 'https://s3.amazonaws.com/deep-learning-models/image-models/imagenet_class_index.json'
  class_idx = json.loads(urllib.request.urlopen(url).read())
  \<close>
  The two imports and the assignment to \<open>url\<close> take effect before the calls that can
  raise. The decoded value is bound as it comes; the cell has no check of its own.
\<close>

definition class_index_url :: string where
  "class_index_url =
     ''https://s3.amazonaws.com/deep-learning-models/image-models/imagenet_class_index.json''"

definition load_class_idx :: "'w lib \<Rightarrow> 'w nb_state \<Rightarrow> (error + pyval) \<times> 'w nb_state" where
  "load_class_idx lib st =
     (let st1 = st\<lparr>modules := insert ''urllib'' (insert ''json'' (modules st))\<rparr>;
          st2 = st1\<lparr>url := Some class_index_url\<rparr>
      in case urlopen_read lib class_index_url of
           Inl e \<Rightarrow> (Inl e, st2)
         | Inr body \<Rightarrow>
             (case json_loads lib body of
                Inl e \<Rightarrow> (Inl e, st2)
              | Inr v \<Rightarrow> (Inr PNone, st2\<lparr>class_idx := Some v\<rparr>)))"

text \<open>
  \<^verbatim>\<open>
  img = Image.open('../data/imgs/img.jpg')
  img = img.convert('RGB')
  \<close>
\<close>

definition open_image :: "'w lib \<Rightarrow> string \<Rightarrow> 'w nb_state \<Rightarrow> (error + pyval) \<times> 'w nb_state" where
  "open_image lib path st =
     (case Image_open lib path of
        Inl e \<Rightarrow> (Inl e, st)
      | Inr im \<Rightarrow> (Inr PNone, st\<lparr>img := Some (convert_RGB im)\<rparr>))"

text \<open>
  \<open>model(x)\<close>: one call of the module's forward function on \<open>x\<close>, in the mode the
  module is in; the call is entered in the log. The result asks for gradients when
  gradient mode is on and the parameters do. In evaluation mode the module's state is
  not written.
\<close>

definition call_model ::
  "'w lib \<Rightarrow> 'w module \<Rightarrow> tensor \<Rightarrow> 'w nb_state
     \<Rightarrow> (error + 'w module \<times> out_tensor) \<times> 'w nb_state" where
  "call_model lib m x st =
     (let st1 = st\<lparr>forward_log := forward_log st @ [x]\<rparr>;
          rg = (grad_enabled st \<and> params_require_grad m)
      in if training m then
           (case train_forward lib (state_dict m) x of
              Inl e \<Rightarrow> (Inl e, st1)
            | Inr (w', scores) \<Rightarrow>
                (Inr (m\<lparr>state_dict := w'\<rparr>, \<lparr>data = scores, requires_grad = rg\<rparr>), st1))
         else
           (case eval_forward lib (state_dict m) x of
              Inl e \<Rightarrow> (Inl e, st1)
            | Inr scores \<Rightarrow> (Inr (m, \<lparr>data = scores, requires_grad = rg\<rparr>), st1)))"

text \<open>
  \<^verbatim>\<open>
  output = model(preproc(img))
  m, argm = output.data.squeeze().max(0)
  class_id = argm.item()
  print(output)
  class_idx[str(class_id)]
  \<close>
  The names are read in the order Python evaluates them. \<open>m\<close> and \<open>argm\<close> are not kept
  in the state, \<open>print\<close> changes nothing.
\<close>

definition infer :: "'w lib \<Rightarrow> 'w nb_state \<Rightarrow> (error + pyval) \<times> 'w nb_state" where
  "infer lib st =
     (case model st of
        None \<Rightarrow> (Inl (NameError ''model''), st)
      | Some m \<Rightarrow>
     (case img st of
        None \<Rightarrow> (Inl (NameError ''img''), st)
      | Some a \<Rightarrow>
     (case preproc (resample lib) st a of
        Inl e \<Rightarrow> (Inl e, st)
      | Inr x \<Rightarrow>
     (case call_model lib m x st of
        (Inl e, st1) \<Rightarrow> (Inl e, st1)
      | (Inr (m', out), st1) \<Rightarrow>
     (let st2 = st1\<lparr>model := Some m', output := Some out\<rparr> in
      case predict_class (data out) of
        Inl e \<Rightarrow> (Inl e, st2)
      | Inr ci \<Rightarrow>
     (let st3 = st2\<lparr>class_id := Some ci\<rparr> in
      case class_idx st3 of
        None \<Rightarrow> (Inl (NameError ''class_idx''), st3)
      | Some tbl \<Rightarrow>
     (case lookup_label tbl ci of
        Inl e \<Rightarrow> (Inl e, st3)
      | Inr v \<Rightarrow> (Inr v, st3))))))))"

text \<open>
  The notebook's code cells (the two \<open>plt.imshow(img)\<close> cells only draw). A session
  runs cells one after the other; after a cell that raised, the next one runs in the
  state that cell left.
\<close>

datatype cell = LoadModel | LoadLabels | OpenImage string | Infer

fun run_cell :: "'w lib \<Rightarrow> cell \<Rightarrow> 'w nb_state \<Rightarrow> (error + pyval) \<times> 'w nb_state" where
  "run_cell lib LoadModel st = load_model lib st"
| "run_cell lib LoadLabels st = load_class_idx lib st"
| "run_cell lib (OpenImage path) st = open_image lib path st"
| "run_cell lib Infer st = infer lib st"

fun run_cells :: "'w lib \<Rightarrow> cell list \<Rightarrow> 'w nb_state \<Rightarrow> 'w nb_state" where
  "run_cells lib [] st = st"
| "run_cells lib (c # cs) st = run_cells lib cs (snd (run_cell lib c st))"

definition notebook :: "cell list" where
  "notebook = [LoadModel, LoadLabels, OpenImage ''../data/imgs/img.jpg'', Infer,
               OpenImage ''../data/imgs/cat.jpg'', Infer]"

text \<open>A new kernel: no name is bound; torch starts with gradient mode on.\<close>

definition fresh :: "'w nb_state" where
  "fresh = \<lparr>modules = {}, url = None, model = None, class_idx = None, img = None,
            output = None, class_id = None, grad_enabled = True, forward_log = []\<rparr>"

section \<open>Replicating a channel\<close>

text \<open>
  Spec 8, in the spec's words: "replicating the channel three times". Every channel of
  the result is channel 0 of the argument.
\<close>

definition replicate_channel :: "nat \<Rightarrow> tensor \<Rightarrow> tensor" where
  "replicate_channel n t =
     \<lparr>shape = n # tl (shape t),
      elem = (\<lambda>idx. case idx of c # rest \<Rightarrow> elem t (0 # rest) | [] \<Rightarrow> elem t [])\<rparr>"

section \<open>Concrete inputs\<close>

text \<open>Inputs at which the theorems below are instantiated.\<close>

definition nearest :: resampler where
  "nearest p old new = (\<lambda>x y. p (x * fst old div fst new) (y * snd old div snd new))"

definition sample_image :: image where
  "sample_image =
     \<lparr>im_mode = RGB, im_size = (640, 480), px = (\<lambda>c x y. word_of_nat (c + x + y))\<rparr>"

definition sample_grey :: image where
  "sample_grey = \<lparr>im_mode = L, im_size = (300, 500), px = (\<lambda>c x y. word_of_nat (x + y))\<rparr>"

definition sample_scores :: "rat list" where
  "sample_scores = replicate 208 0 @ [1] @ replicate 791 0"

definition sample_entry :: pyval where
  "sample_entry = PList [PStr ''n02109961'', PStr ''Eskimo_dog'']"

definition sample_table :: "(string \<times> pyval) list" where
  "sample_table =
     map (\<lambda>n. (str_int (int n), PList [PStr ''n'', PStr (str_int (int n))])) [0..<1000]"

text \<open>The label table of the spec's example, as the text the server sends.\<close>

definition sample_body :: string where
  \<open>sample_body = ''{"208": ["n02109961", "Eskimo_dog"]}''\<close>

text \<open>
  A library for the concrete runs: the decoder knows the two documents used here, the
  network answers every input with \<open>sample_scores\<close>.
\<close>

definition sample_lib :: "unit lib" where
  "sample_lib =
     \<lparr>resample = nearest,
      pretrained_weights = Inr (),
      eval_forward = (\<lambda>w x. Inr [sample_scores]),
      train_forward = (\<lambda>w x. Inr ((), [sample_scores])),
      urlopen_read = (\<lambda>u. Inr sample_body),
      json_loads = (\<lambda>s. if s = sample_body then Inr (PDict [(''208'', sample_entry)])
                          else if s = ''[]'' then Inr (PList []) else Inl JSONDecodeError),
      Image_open = (\<lambda>p. Inr sample_image)\<rparr>"

text \<open>The same, with a grey picture on disk.\<close>

definition grey_lib :: "unit lib" where
  "grey_lib = sample_lib\<lparr>Image_open := (\<lambda>p. Inr sample_grey)\<rparr>"

text \<open>The same, with a server that answers with the bare array \<open>[]\<close>.\<close>

definition bare_array_lib :: "unit lib" where
  "bare_array_lib = sample_lib\<lparr>urlopen_read := (\<lambda>u. Inr ''[]'')\<rparr>"

text \<open>The same, with no network, and with a server that answers with a web page.\<close>

definition offline_lib :: "unit lib" where
  "offline_lib = sample_lib\<lparr>urlopen_read := (\<lambda>u. Inl URLError)\<rparr>"

definition html_lib :: "unit lib" where
  "html_lib = sample_lib\<lparr>urlopen_read := (\<lambda>u. Inr ''<html></html>'')\<rparr>"

text \<open>The state after the notebook's first three cells.\<close>

definition loaded :: "unit nb_state" where
  "loaded = run_cells sample_lib [LoadModel, LoadLabels, OpenImage ''../data/imgs/img.jpg''] fresh"

text \<open>The same state with another label table, one entry for each of 0..999.\<close>

definition relabelled :: "unit nb_state" where
  "relabelled = loaded\<lparr>class_idx := Some (PDict sample_table)\<rparr>"

text \<open>An object of the wrong shape: the entry is a number, not a pair.\<close>

definition misshapen_table :: pyval where
  "misshapen_table = PDict [(''208'', PInt 5)]"

section \<open>Facts about the model\<close>

subsection \<open>The scan for the first maximum\<close>

lemma first_max_scan:
  assumes "k < length pre" and "pre ! k = m" and "i = length pre"
      and "\<forall>j<length pre. pre ! j \<le> m" and "\<forall>j<k. pre ! j < m"
  shows "snd (first_max m k i xs) < length (pre @ xs)
       \<and> (pre @ xs) ! snd (first_max m k i xs) = fst (first_max m k i xs)
       \<and> (\<forall>j<length (pre @ xs). (pre @ xs) ! j \<le> fst (first_max m k i xs))
       \<and> (\<forall>j. j < snd (first_max m k i xs) \<longrightarrow> (pre @ xs) ! j < fst (first_max m k i xs))"
  using assms
proof (induction xs arbitrary: pre m k i)
  case Nil
  then show ?case by simp
next
  case (Cons x xs)
  let ?pre = "pre @ [x]"
  show ?case
  proof (cases "m < x")
    case True
    have a: "length pre < length ?pre" by simp
    have b: "?pre ! length pre = x" by simp
    have c: "Suc i = length ?pre" using Cons.prems by simp
    have d: "\<forall>j<length ?pre. ?pre ! j \<le> x"
      using Cons.prems True by (auto simp: nth_append less_Suc_eq intro: less_imp_le order_trans)
    have e: "\<forall>j<length pre. ?pre ! j < x"
      using Cons.prems True by (auto simp: nth_append intro: le_less_trans)
    from Cons.IH [OF a b c d e] True Cons.prems(3) show ?thesis by simp
  next
    case False
    have a: "k < length ?pre" using Cons.prems by simp
    have b: "?pre ! k = m" using Cons.prems by (simp add: nth_append)
    have c: "Suc i = length ?pre" using Cons.prems by simp
    have d: "\<forall>j<length ?pre. ?pre ! j \<le> m"
      using Cons.prems False by (auto simp: nth_append less_Suc_eq)
    have e: "\<forall>j<k. ?pre ! j < m"
      using Cons.prems by (auto simp: nth_append)
    from Cons.IH [OF a b c d e] False show ?thesis by simp
  qed
qed

lemma first_max_vector:
  "snd (first_max x 0 1 xs) < length (x # xs)
   \<and> (x # xs) ! snd (first_max x 0 1 xs) = fst (first_max x 0 1 xs)
   \<and> (\<forall>j<length (x # xs). (x # xs) ! j \<le> fst (first_max x 0 1 xs))
   \<and> (\<forall>j. j < snd (first_max x 0 1 xs) \<longrightarrow> (x # xs) ! j < fst (first_max x 0 1 xs))"
  using first_max_scan [of 0 "[x]" x 1 xs] by simp

lemma predict_class_row:
  assumes "v \<noteq> []"
  shows "\<exists>i. predict_class [v] = Inr (int i) \<and> i < length v
            \<and> (\<forall>j<length v. v ! j \<le> v ! i) \<and> (\<forall>j<i. v ! j < v ! i)"
proof -
  from assms obtain x xs where v: "v = x # xs" by (cases v) auto
  show ?thesis
  proof (cases xs)
    case Nil
    with v show ?thesis by (simp add: predict_class_def squeeze_def max0_def)
  next
    case (Cons y ys)
    let ?i = "snd (first_max x 0 1 xs)"
    have "predict_class [v] = Inr (int ?i)"
      using v Cons by (simp add: predict_class_def squeeze_def max0_def)
    with first_max_vector [of x xs] v show ?thesis by auto
  qed
qed

lemma first_argmax_unique:
  fixes v :: "'a::linorder list"
  assumes "i < length v" "\<forall>j<length v. v ! j \<le> v ! i" "\<forall>j<i. v ! j < v ! i"
      and "k < length v" "\<forall>j<length v. v ! j \<le> v ! k" "\<forall>j<k. v ! j < v ! k"
  shows "i = k"
proof (rule ccontr)
  assume "i \<noteq> k"
  then consider "i < k" | "k < i" by arith
  then show False
  proof cases
    case 1
    with assms(6) have "v ! i < v ! k" by simp
    moreover from assms(2,4) have "v ! k \<le> v ! i" by simp
    ultimately show False by simp
  next
    case 2
    with assms(3) have "v ! k < v ! i" by simp
    moreover from assms(5,1) have "v ! i \<le> v ! k" by simp
    ultimately show False by simp
  qed
qed

lemma predict_class_eq:
  fixes v :: "'a::linorder list"
  assumes "k < length v" "\<forall>j<length v. v ! j \<le> v ! k" "\<forall>j<k. v ! j < v ! k"
  shows "predict_class [v] = Inr (int k)"
proof -
  from assms(1) have "v \<noteq> []" by auto
  from predict_class_row [OF this] obtain i where
    i: "predict_class [v] = Inr (int i)" "i < length v"
       "\<forall>j<length v. v ! j \<le> v ! i" "\<forall>j<i. v ! j < v ! i" by blast
  from first_argmax_unique [OF i(2,3,4) assms] i(1) show ?thesis by simp
qed

subsection \<open>Decimal strings\<close>

lemma digit_cases:
  "d < 10 \<Longrightarrow> d = 0 \<or> d = 1 \<or> d = 2 \<or> d = 3 \<or> d = 4 \<or> d = 5 \<or> d = 6 \<or> d = 7 \<or> d = 8 \<or> d = (9::nat)"
  by arith

lemma digit_val_digit_char: "d < 10 \<Longrightarrow> digit_val (digit_char d) = d"
  using digit_cases [of d] by (auto simp: digit_val_def digit_char_def)

lemma val_nat_str_nat: "val_nat (str_nat n) = n"
proof (induction n rule: str_nat.induct)
  case (1 n)
  show ?case
  proof (cases "n < 10")
    case True
    then show ?thesis
      by (subst str_nat.simps) (simp add: val_nat_def digit_val_digit_char)
  next
    case False
    with 1 have "val_nat (str_nat (n div 10)) = n div 10" by simp
    with False show ?thesis
      by (subst str_nat.simps) (simp add: val_nat_def digit_val_digit_char)
  qed
qed

lemma str_nat_inj: "str_nat a = str_nat b \<Longrightarrow> a = b"
  by (metis val_nat_str_nat)

lemma str_nat_nonempty: "str_nat n \<noteq> []"
  by (subst str_nat.simps) simp

lemma str_nat_not_minus: "str_nat n \<noteq> CHR ''-'' # s"
proof (induction n arbitrary: s rule: str_nat.induct)
  case (1 n)
  show ?case
  proof (cases "n < 10")
    case True
    have "digit_char n \<noteq> CHR ''-''"
      using digit_cases [OF True] by (auto simp: digit_char_def)
    with True show ?thesis by (subst str_nat.simps) simp
  next
    case False
    with 1 have ih: "\<And>s. str_nat (n div 10) \<noteq> CHR ''-'' # s" by simp
    show ?thesis
      using False ih str_nat_nonempty [of "n div 10"]
      by (subst str_nat.simps) (auto simp: append_eq_Cons_conv)
  qed
qed

lemma str_int_inj: "str_int a = str_int b \<Longrightarrow> a = b"
proof -
  assume eq: "str_int a = str_int b"
  show "a = b"
  proof (cases "a < 0")
    case an: True
    show ?thesis
    proof (cases "b < 0")
      case True
      with an eq have "str_nat (nat (- a)) = str_nat (nat (- b))"
        by (simp add: str_int_def)
      then have "nat (- a) = nat (- b)" by (rule str_nat_inj)
      with an True show ?thesis by simp
    next
      case False
      with an eq show ?thesis
        using str_nat_not_minus [of "nat b" "str_nat (nat (- a))"] by (simp add: str_int_def)
    qed
  next
    case ap: False
    show ?thesis
    proof (cases "b < 0")
      case True
      with ap eq show ?thesis
        using str_nat_not_minus [of "nat a" "str_nat (nat (- b))"] by (simp add: str_int_def)
    next
      case False
      with ap eq have "str_nat (nat a) = str_nat (nat b)"
        by (simp add: str_int_def)
      then have "nat a = nat b" by (rule str_nat_inj)
      with ap False show ?thesis by simp
    qed
  qed
qed

lemma str_int_208: "str_int 208 = ''208''"
  by (simp add: str_int_def str_nat.simps digit_char_def)

subsection \<open>The transforms\<close>

lemma resize_ok:
  assumes "0 < fst (im_size im)" "0 < snd (im_size im)"
  shows "\<exists>r. resize rs s im = Inr r \<and> im_mode r = im_mode im"
  using assms by (auto simp: resize_def pil_resize_def split: prod.splits)

lemma resize_shorter_side:
  assumes "resize rs s im = Inr r"
  shows "min (fst (im_size r)) (snd (im_size r)) = s"
proof -
  obtain w h where wh: "im_size im = (w, h)" by (cases "im_size im")
  show ?thesis
  proof (cases "(w \<le> h \<and> w = s) \<or> (h \<le> w \<and> h = s)")
    case True
    with assms wh show ?thesis by (auto simp: resize_def)
  next
    case same: False
    show ?thesis
    proof (cases "w < h")
      case True
      with assms wh same have w0: "0 < w" and r: "r = pil_resize rs (s, s * h div w) im"
        by (auto simp: resize_def split: if_splits)
      have "s * w \<le> s * h" using True by simp
      then have "s \<le> s * h div w" using w0
        by (metis div_le_mono nonzero_mult_div_cancel_right less_numeral_extra(3))
      with r show ?thesis by (simp add: pil_resize_def)
    next
      case False
      with assms wh same have h0: "0 < h" and r: "r = pil_resize rs (s * w div h, s) im"
        by (auto simp: resize_def split: if_splits)
      have "s * h \<le> s * w" using False by simp
      then have "s \<le> s * w div h" using h0
        by (metis div_le_mono nonzero_mult_div_cancel_right less_numeral_extra(3))
      with r show ?thesis by (simp add: pil_resize_def)
    qed
  qed
qed

lemma center_crop_size: "im_size (center_crop s im) = (s, s)"
  by (simp add: center_crop_def pil_crop_def split: prod.splits)

lemma center_crop_mode: "im_mode (center_crop s im) = im_mode im"
  by (simp add: center_crop_def pil_crop_def split: prod.splits)

lemma to_tensor_unit_interval:
  "0 \<le> elem (to_tensor im) idx \<and> elem (to_tensor im) idx \<le> 1"
proof -
  have b: "rat_of_nat (unat w) / 255 \<le> 1" for w :: "8 word"
  proof -
    have "unat w < 2 ^ LENGTH(8)" by (rule unsigned_less)
    then have "unat w \<le> 255" by simp
    then have "rat_of_nat (unat w) \<le> rat_of_nat 255" by (simp only: of_nat_le_iff)
    then show ?thesis by simp
  qed
  have "0 \<le> rat_of_nat (unat w) / 255" for w :: "8 word"
  proof (rule divide_nonneg_nonneg)
    show "(0::rat) \<le> rat_of_nat (unat w)" by (rule of_nat_0_le_iff)
    show "(0::rat) \<le> 255" by simp
  qed
  with b show ?thesis
    by (auto simp: to_tensor_def split: list.splits)
qed

lemma shape_to_tensor:
  "shape (to_tensor im) = [nbands (im_mode im), snd (im_size im), fst (im_size im)]"
  by (simp add: to_tensor_def)

lemma Compose_preproc_t:
  assumes "resize rs 256 im = Inr r"
  shows "Compose rs preproc_t (Img im)
         = map_sum id Tns (normalize preproc_mean preproc_std (to_tensor (center_crop 224 r)))"
  using assms
  by (cases "normalize preproc_mean preproc_std (to_tensor (center_crop 224 r))")
     (simp_all add: preproc_t_def)

lemma normalize_rgb:
  assumes "im_mode c = RGB"
  shows "normalize preproc_mean preproc_std (to_tensor (center_crop 224 c))
       = Inr \<lparr>shape = [3, 224, 224],
              elem = (\<lambda>idx. case idx of
                          ch # rest \<Rightarrow> (elem (to_tensor (center_crop 224 c)) idx - preproc_mean ! ch) / preproc_std ! ch
                        | [] \<Rightarrow> elem (to_tensor (center_crop 224 c)) idx)\<rparr>"
proof -
  have "shape (to_tensor (center_crop 224 c)) = [3, 224, 224]"
    using assms by (simp add: shape_to_tensor center_crop_size center_crop_mode)
  moreover have "length preproc_mean = 3" "length preproc_std = 3"
    by (simp_all add: preproc_mean_def preproc_std_def)
  ultimately show ?thesis by (simp add: normalize_def)
qed

lemma round_half_centred: "\<bar>2 * round_half d - d\<bar> \<le> 1"
  unfolding round_half_def Let_def by presburger

lemma center_crop_px:
  assumes "s \<le> fst (im_size r)" and "s \<le> snd (im_size r)" and "x < s" and "y < s"
  shows "px (center_crop s r) c x y
       = px r c (x + nat (round_half (int (fst (im_size r)) - int s)))
                (y + nat (round_half (int (snd (im_size r)) - int s)))"
proof -
  obtain w h where wh: "im_size r = (w, h)" by (cases "im_size r")
  let ?j = "round_half (int w - int s)" and ?i = "round_half (int h - int s)"
  have j: "0 \<le> ?j \<and> ?j + int x < int w"
    using round_half_centred [of "int w - int s"] assms(1,3) wh by auto
  have i: "0 \<le> ?i \<and> ?i + int y < int h"
    using round_half_centred [of "int h - int s"] assms(2,4) wh by auto
  have "nat (?j + int x) = x + nat ?j" "nat (?i + int y) = y + nat ?i"
    using j i by auto
  with j i wh show ?thesis
    by (simp add: center_crop_def pil_crop_def Let_def)
qed

lemma resize_convert_RGB:
  assumes "im_mode g = L"
  shows "resize rs s (convert_RGB g) = map_sum id convert_RGB (resize rs s g)"
  using assms
  by (auto simp: resize_def convert_RGB_def pil_resize_def split: prod.splits)

lemma center_crop_convert_RGB:
  assumes "im_mode g = L"
  shows "center_crop s (convert_RGB g) = convert_RGB (center_crop s g)"
proof -
  obtain w h where wh: "im_size g = (w, h)" by (cases "im_size g")
  have "px (center_crop s (convert_RGB g)) = px (convert_RGB (center_crop s g))"
    using assms wh
    by (intro ext) (simp add: center_crop_def convert_RGB_def pil_crop_def Let_def)
  moreover have "im_size (center_crop s (convert_RGB g)) = im_size (convert_RGB (center_crop s g))"
    using assms wh by (simp add: center_crop_def convert_RGB_def pil_crop_def Let_def)
  moreover have "im_mode (center_crop s (convert_RGB g)) = im_mode (convert_RGB (center_crop s g))"
    using assms wh by (simp add: center_crop_def convert_RGB_def pil_crop_def Let_def)
  ultimately show ?thesis by simp
qed

lemma to_tensor_convert_RGB:
  assumes "im_mode g = L"
  shows "to_tensor (convert_RGB g) = replicate_channel 3 (to_tensor g)"
proof -
  have "elem (to_tensor (convert_RGB g)) idx = elem (replicate_channel 3 (to_tensor g)) idx" for idx
    using assms
    by (simp add: to_tensor_def convert_RGB_def replicate_channel_def split: list.splits)
  then have "elem (to_tensor (convert_RGB g)) = elem (replicate_channel 3 (to_tensor g))"
    by (rule ext)
  moreover have "shape (to_tensor (convert_RGB g)) = shape (replicate_channel 3 (to_tensor g))"
    using assms by (simp add: to_tensor_def convert_RGB_def replicate_channel_def)
  ultimately show ?thesis by simp
qed

subsection \<open>The cells\<close>

lemma preproc_reads_img:
  "img st = img st' \<Longrightarrow> preproc rs st a = preproc rs st' b"
  by (simp add: preproc_def)

lemma call_model_result:
  assumes "call_model lib m x st = (Inr (m', out), st1)"
  shows "st1 = st\<lparr>forward_log := forward_log st @ [x]\<rparr>
       \<and> requires_grad out = (grad_enabled st \<and> params_require_grad m)
       \<and> (\<not> training m \<longrightarrow> m' = m \<and> eval_forward lib (state_dict m) x = Inr (data out))"
  using assms
  by (auto simp: call_model_def Let_def split: sum.splits if_splits prod.splits)

lemma call_model_state:
  "snd (call_model lib m x st) = st\<lparr>forward_log := forward_log st @ [x]\<rparr>"
  by (simp add: call_model_def Let_def split: sum.splits prod.splits)

lemma call_model_eval:
  assumes "\<not> training m" and "eval_forward lib (state_dict m) x = Inr scores"
  shows "call_model lib m x st
       = (Inr (m, \<lparr>data = scores, requires_grad = (grad_enabled st \<and> params_require_grad m)\<rparr>),
          st\<lparr>forward_log := forward_log st @ [x]\<rparr>)"
  using assms by (simp add: call_model_def Let_def)

lemma call_model_stateD:
  "call_model lib m x st = (r, st1) \<Longrightarrow> st1 = st\<lparr>forward_log := forward_log st @ [x]\<rparr>"
  using call_model_state [of lib m x st] by simp

lemma infer_grad_enabled: "grad_enabled (snd (infer lib st)) = grad_enabled st"
  by (auto simp: infer_def Let_def split: option.splits sum.splits prod.splits
           dest!: call_model_stateD)

lemma infer_forward_log:
  "\<exists>xs. forward_log (snd (infer lib st)) = forward_log st @ xs \<and> length xs \<le> 1"
  by (auto simp: infer_def Let_def split: option.splits sum.splits prod.splits
           dest!: call_model_stateD)

lemma infer_model_frozen:
  assumes "model st = Some m" and "\<not> training m"
  shows "model (snd (infer lib st)) = Some m"
proof -
  have "call_model lib m x st = (Inr (m', out), st1) \<Longrightarrow> m' = m" for x m' out st1
    using assms(2) call_model_result [of lib m x st m' out st1] by simp
  then show ?thesis
    using assms(1)
    by (auto simp: infer_def Let_def split: option.splits sum.splits prod.splits
             dest!: call_model_stateD)
qed

lemma infer_returns:
  assumes "infer lib st = (Inr v, st')" and "model st = Some m"
  shows "\<exists>a x out ci tbl. img st = Some a
           \<and> preproc (resample lib) st a = Inr x
           \<and> forward_log st' = forward_log st @ [x]
           \<and> output st' = Some out
           \<and> requires_grad out = (grad_enabled st \<and> params_require_grad m)
           \<and> (\<not> training m \<longrightarrow>
                 model st' = Some m \<and> eval_forward lib (state_dict m) x = Inr (data out))
           \<and> predict_class (data out) = Inr ci \<and> class_id st' = Some ci
           \<and> class_idx st = Some tbl \<and> lookup_label tbl ci = Inr v
           \<and> img st' = img st \<and> class_idx st' = class_idx st
           \<and> grad_enabled st' = grad_enabled st"
proof -
  from assms obtain a where a: "img st = Some a"
    by (auto simp: infer_def split: option.splits)
  from assms a obtain x where x: "preproc (resample lib) st a = Inr x"
    by (auto simp: infer_def split: sum.splits)
  from assms a x obtain m' out st1 where c: "call_model lib m x st = (Inr (m', out), st1)"
    by (auto simp: infer_def split: sum.splits prod.splits)
  note r = call_model_result [OF c]
  from assms a x c obtain ci where ci: "predict_class (data out) = Inr ci"
    by (auto simp: infer_def Let_def split: sum.splits)
  from assms a x c ci obtain tbl where tbl: "class_idx st1 = Some tbl"
    by (auto simp: infer_def Let_def split: option.splits)
  from assms a x c ci tbl have
    v: "lookup_label tbl ci = Inr v" and
    st': "st' = st1\<lparr>model := Some m', output := Some out, class_id := Some ci\<rparr>"
    by (auto simp: infer_def Let_def split: sum.splits)
  from r have st1: "st1 = st\<lparr>forward_log := forward_log st @ [x]\<rparr>" by simp
  from tbl st1 have tbl0: "class_idx st = Some tbl" by simp
  show ?thesis
    using a x r ci v tbl0 by (auto simp: st' st1)
qed

lemma infer_eval:
  assumes "model st = Some m" and "\<not> training m" and "img st = Some a"
      and "preproc (resample lib) st a = Inr x"
      and "eval_forward lib (state_dict m) x = Inr scores"
      and "predict_class scores = Inr ci"
      and "class_idx st = Some tbl" and "lookup_label tbl ci = Inr v"
  shows "infer lib st
       = (Inr v,
          st\<lparr>forward_log := forward_log st @ [x], model := Some m,
              output := Some \<lparr>data = scores,
                               requires_grad = (grad_enabled st \<and> params_require_grad m)\<rparr>,
              class_id := Some ci\<rparr>)"
  using assms by (simp add: infer_def call_model_eval)

lemma infer_twice:
  assumes "model st = Some m" and "\<not> training m" and "infer lib st = (Inr v, st1)"
  shows "\<exists>st2. infer lib st1 = (Inr v, st2) \<and> output st2 = output st1
              \<and> class_id st2 = class_id st1"
proof -
  from infer_returns [OF assms(3,1)] assms(2) obtain a x out ci tbl where
    f: "img st = Some a" "preproc (resample lib) st a = Inr x"
       "output st1 = Some out"
       "requires_grad out = (grad_enabled st \<and> params_require_grad m)"
       "model st1 = Some m" "eval_forward lib (state_dict m) x = Inr (data out)"
       "predict_class (data out) = Inr ci" "class_id st1 = Some ci"
       "class_idx st = Some tbl" "lookup_label tbl ci = Inr v"
       "img st1 = img st" "class_idx st1 = class_idx st"
       "grad_enabled st1 = grad_enabled st"
    by blast
  have p: "preproc (resample lib) st1 a = Inr x"
    using f(2,11) preproc_reads_img [of st1 st "resample lib" a a] by simp
  have "infer lib st1
       = (Inr v,
          st1\<lparr>forward_log := forward_log st1 @ [x], model := Some m,
               output := Some \<lparr>data = data out,
                                requires_grad = (grad_enabled st1 \<and> params_require_grad m)\<rparr>,
               class_id := Some ci\<rparr>)"
    using f by (intro infer_eval [OF f(5) assms(2) _ p f(6) f(7)]) simp_all
  then show ?thesis using f by simp
qed

lemma infer_same_scores:
  assumes "img st' = img st"
      and "model st = Some m" and "\<not> training m"
      and "model st' = Some m'" and "\<not> training m'" and "state_dict m' = state_dict m"
      and "infer lib st = (Inr v, st1)" and "infer lib st' = (Inr v', st1')"
  shows "map_option data (output st1') = map_option data (output st1)
       \<and> class_id st1' = class_id st1"
proof -
  from infer_returns [OF assms(7,2)] assms(3) obtain a x out ci where
    f: "img st = Some a" "preproc (resample lib) st a = Inr x" "output st1 = Some out"
       "eval_forward lib (state_dict m) x = Inr (data out)"
       "predict_class (data out) = Inr ci" "class_id st1 = Some ci"
    by blast
  from infer_returns [OF assms(8,4)] assms(5) obtain a' x' out' ci' where
    g: "img st' = Some a'" "preproc (resample lib) st' a' = Inr x'" "output st1' = Some out'"
       "eval_forward lib (state_dict m') x' = Inr (data out')"
       "predict_class (data out') = Inr ci'" "class_id st1' = Some ci'"
    by blast
  from f(1) g(1) assms(1) have "a' = a" by simp
  with f(2) g(2) preproc_reads_img [OF assms(1), of "resample lib" a a] have "x' = x" by simp
  with f(4) g(4) assms(6) have "data out' = data out" by simp
  with f g show ?thesis by simp
qed

lemma run_cell_model_frozen:
  assumes "model st = Some m" and "\<not> training m" and "c \<noteq> LoadModel"
  shows "model (snd (run_cell lib c st)) = Some m"
  using assms infer_model_frozen [of st m lib]
  by (cases c) (auto simp: load_class_idx_def open_image_def Let_def split: sum.splits)

lemma run_cell_grad_enabled: "grad_enabled (snd (run_cell lib c st)) = grad_enabled st"
  using infer_grad_enabled [of lib st]
  by (cases c)
     (auto simp: load_model_def load_class_idx_def open_image_def Let_def split: sum.splits)

lemma run_cells_grad_enabled: "grad_enabled (run_cells lib cs st) = grad_enabled st"
  by (induction cs arbitrary: st) (simp_all add: run_cell_grad_enabled)

lemma run_cells_model_frozen:
  assumes "model st = Some m" and "\<not> training m" and "list_all (\<lambda>c. c \<noteq> LoadModel) cs"
  shows "model (run_cells lib cs st) = Some m"
  using assms
proof (induction cs arbitrary: st)
  case Nil
  then show ?case by simp
next
  case (Cons c cs)
  from Cons.prems have "model (snd (run_cell lib c st)) = Some m"
    by (simp add: run_cell_model_frozen)
  with Cons show ?case by simp
qed

lemma load_model_loaded:
  assumes "load_model lib st = (Inr v, st')"
  shows "\<exists>w. pretrained_weights lib = Inr w
           \<and> model st' = Some \<lparr>training = False, state_dict = w, params_require_grad = True\<rparr>"
  using assms by (auto simp: load_model_def resnet152_def eval_def split: sum.splits)

subsection \<open>The concrete inputs\<close>

lemma sample_table_keys: "fst ` set sample_table = str_int ` {0..999}"
proof -
  have "fst ` set sample_table = (\<lambda>n. str_int (int n)) ` {0..<1000}"
    by (simp add: sample_table_def image_image)
  also have "\<dots> = str_int ` (int ` {0..<1000})" by (simp add: image_image)
  also have "int ` {0..<1000} = {0..999}"
    by (auto simp: image_int_atLeastLessThan)
  finally show ?thesis .
qed

lemma map_of_keyed:
  "inj_on f (set xs) \<Longrightarrow> a \<in> set xs \<Longrightarrow> map_of (map (\<lambda>x. (f x, g x)) xs) (f a) = Some (g a)"
  by (induction xs) (auto simp: inj_on_def)

lemma sample_table_lookup:
  assumes "n < 1000"
  shows "map_of sample_table (str_int (int n)) = Some (PList [PStr ''n'', PStr (str_int (int n))])"
proof -
  have "inj_on (\<lambda>n. str_int (int n)) (set [0..<1000])"
    by (auto simp: inj_on_def dest: str_int_inj)
  moreover have "n \<in> set [0..<1000]" using assms by simp
  ultimately show ?thesis
    unfolding sample_table_def by (rule map_of_keyed)
qed

lemma sample_image_resized:
  "resize nearest 256 sample_image = Inr (pil_resize nearest (341, 256) sample_image)"
  by (simp add: resize_def sample_image_def)

lemma sample_image_scaled:
  "elem (to_tensor (center_crop 224 (pil_resize nearest (341, 256) sample_image))) [c, 0, 0]
   = rat_of_nat (unat (word_of_nat (c + 138) :: 8 word)) / 255"
  by (simp add: to_tensor_def center_crop_def pil_crop_def pil_resize_def nearest_def
                sample_image_def round_half_def Let_def add.commute)

lemma sample_grey_resized:
  "resize nearest 256 sample_grey = Inr (pil_resize nearest (256, 426) sample_grey)"
  by (simp add: resize_def sample_grey_def)

lemma sample_grey_scaled:
  "elem (to_tensor (center_crop 224 (pil_resize nearest (256, 426) sample_grey))) [0, 0, 0]
   = 136 / 255"
  by (simp add: to_tensor_def center_crop_def pil_crop_def pil_resize_def nearest_def
                sample_grey_def round_half_def Let_def)

lemma sample_scores_predict: "predict_class [sample_scores] = Inr 208"
proof -
  have len: "208 < length sample_scores" by (simp add: sample_scores_def)
  have at: "sample_scores ! 208 = 1"
    by (simp add: sample_scores_def nth_append)
  have le: "\<forall>j<length sample_scores. sample_scores ! j \<le> sample_scores ! 208"
    unfolding at by (auto simp: sample_scores_def nth_append nth_Cons split: nat.splits)
  have lt: "\<forall>j<208. sample_scores ! j < sample_scores ! 208"
    unfolding at by (simp add: sample_scores_def nth_append)
  from predict_class_eq [OF len le lt] show ?thesis by simp
qed

lemma loaded_eq:
  "loaded = \<lparr>modules = {''urllib'', ''json''}, url = Some class_index_url,
             model = Some \<lparr>training = False, state_dict = (), params_require_grad = True\<rparr>,
             class_idx = Some (PDict [(''208'', sample_entry)]),
             img = Some sample_image, output = None, class_id = None,
             grad_enabled = True, forward_log = []\<rparr>"
  by (simp add: loaded_def fresh_def sample_lib_def load_model_def resnet152_def eval_def
                load_class_idx_def open_image_def convert_RGB_def sample_image_def Let_def)

lemma loaded_fields:
  "model loaded = Some \<lparr>training = False, state_dict = (), params_require_grad = True\<rparr>"
  "class_idx loaded = Some (PDict [(''208'', sample_entry)])"
  "img loaded = Some sample_image"
  "grad_enabled loaded = True"
  "forward_log loaded = []"
  by (simp_all add: loaded_eq)

lemma relabelled_fields:
  "model relabelled = Some \<lparr>training = False, state_dict = (), params_require_grad = True\<rparr>"
  "class_idx relabelled = Some (PDict sample_table)"
  "img relabelled = Some sample_image"
  "grad_enabled relabelled = True"
  by (simp_all add: relabelled_def loaded_fields)

lemma preproc_sample:
  assumes "img st = Some sample_image"
  shows "\<exists>t. preproc nearest st x = Inr t \<and> shape t = [1, 3, 224, 224]"
proof -
  have a: "im_mode sample_image = RGB" "0 < fst (im_size sample_image)"
          "0 < snd (im_size sample_image)"
    by (simp_all add: sample_image_def)
  from resize_ok [OF a(2,3)] obtain r where
    r: "resize nearest 256 sample_image = Inr r" "im_mode r = im_mode sample_image" by blast
  have m: "im_mode r = RGB" using r a by simp
  show ?thesis
    using Compose_preproc_t [OF r(1)] normalize_rgb [OF m] assms
    by (simp add: preproc_def unsqueeze0_def)
qed

lemma lookup_sample: "lookup_label (PDict [(''208'', sample_entry)]) 208 = Inr sample_entry"
  by (simp add: lookup_label_def str_int_208)

lemma lookup_sample_table:
  "lookup_label (PDict sample_table) 208 = Inr (PList [PStr ''n'', PStr ''208''])"
  using sample_table_lookup [of 208] by (simp add: lookup_label_def str_int_208)

lemma infer_sample:
  assumes "model st = Some \<lparr>training = False, state_dict = (), params_require_grad = True\<rparr>"
      and "img st = Some sample_image"
      and "class_idx st = Some tbl" and "lookup_label tbl 208 = Inr e"
  shows "\<exists>t. preproc nearest st sample_image = Inr t
            \<and> infer sample_lib st
                = (Inr e,
                   st\<lparr>forward_log := forward_log st @ [t],
                       model := Some \<lparr>training = False, state_dict = (),
                                       params_require_grad = True\<rparr>,
                       output := Some \<lparr>data = [sample_scores],
                                        requires_grad = (grad_enabled st \<and> True)\<rparr>,
                       class_id := Some 208\<rparr>)"
proof -
  from preproc_sample [OF assms(2), of sample_image] obtain t where
    t: "preproc nearest st sample_image = Inr t" by blast
  have res: "resample sample_lib = nearest" by (simp add: sample_lib_def)
  have fw: "eval_forward sample_lib () t = Inr [sample_scores]"
    by (simp add: sample_lib_def)
  have "infer sample_lib st
        = (Inr e,
           st\<lparr>forward_log := forward_log st @ [t],
               model := Some \<lparr>training = False, state_dict = (), params_require_grad = True\<rparr>,
               output := Some \<lparr>data = [sample_scores],
                                requires_grad = (grad_enabled st \<and> True)\<rparr>,
               class_id := Some 208\<rparr>)"
    using infer_eval [where lib = sample_lib and st = st and a = sample_image and x = t
                        and scores = "[sample_scores]" and ci = 208 and tbl = tbl and v = e
                        and m = "\<lparr>training = False, state_dict = (), params_require_grad = True\<rparr>"]
          assms t fw sample_scores_predict
    by (simp add: res)
  with t show ?thesis by blast
qed

lemma infer_loaded:
  "fst (infer sample_lib loaded) = Inr sample_entry"
  "model (snd (infer sample_lib loaded))
   = Some \<lparr>training = False, state_dict = (), params_require_grad = True\<rparr>"
  "class_idx (snd (infer sample_lib loaded)) = Some (PDict [(''208'', sample_entry)])"
  "img (snd (infer sample_lib loaded)) = Some sample_image"
  "output (snd (infer sample_lib loaded))
   = Some \<lparr>data = [sample_scores], requires_grad = True\<rparr>"
  "class_id (snd (infer sample_lib loaded)) = Some 208"
  "grad_enabled (snd (infer sample_lib loaded)) = True"
  "length (forward_log (snd (infer sample_lib loaded))) = 1"
  using infer_sample [OF loaded_fields(1) loaded_fields(3) loaded_fields(2) lookup_sample]
  by (auto simp: loaded_fields)

lemma infer_relabelled:
  "fst (infer sample_lib relabelled) = Inr (PList [PStr ''n'', PStr ''208''])"
  "output (snd (infer sample_lib relabelled))
   = Some \<lparr>data = [sample_scores], requires_grad = True\<rparr>"
  using infer_sample [OF relabelled_fields(1) relabelled_fields(3) relabelled_fields(2)
                         lookup_sample_table]
  by (auto simp: relabelled_fields)

lemma load_model_fresh:
  "load_model sample_lib (fresh :: unit nb_state)
   = (Inr PNone,
      fresh\<lparr>model := Some \<lparr>training = False, state_dict = (), params_require_grad = True\<rparr>\<rparr>)"
  by (simp add: load_model_def resnet152_def eval_def sample_lib_def)

section \<open>The claims\<close>

subsection \<open>Argmax with the lowest index\<close>

text \<open>
  C1. On every non-empty score vector the predicted class is an index of the maximum,
  and the lowest such index; hence the index of a unique maximum, and 0 on a vector
  whose elements are all equal.
\<close>

theorem label_resolution_argmax:
  fixes v :: "'a::linorder list"
  assumes "v \<noteq> []"
  shows "(\<exists>i. predict_class [v] = Inr (int i) \<and> i < length v
            \<and> (\<forall>j<length v. v ! j \<le> v ! i) \<and> (\<forall>j<i. v ! j < v ! i))
       \<and> (\<forall>k<length v. (\<forall>j<length v. j \<noteq> k \<longrightarrow> v ! j < v ! k) \<longrightarrow> predict_class [v] = Inr (int k))
       \<and> ((\<forall>j<length v. v ! j = v ! 0) \<longrightarrow> predict_class [v] = Inr 0)"
proof (intro conjI allI impI)
  show "\<exists>i. predict_class [v] = Inr (int i) \<and> i < length v
            \<and> (\<forall>j<length v. v ! j \<le> v ! i) \<and> (\<forall>j<i. v ! j < v ! i)"
    by (rule predict_class_row [OF assms])
next
  fix k assume k: "k < length v" and u: "\<forall>j<length v. j \<noteq> k \<longrightarrow> v ! j < v ! k"
  have "\<forall>j<length v. v ! j \<le> v ! k"
    using u by (metis less_imp_le order_refl)
  moreover have "\<forall>j<k. v ! j < v ! k" using u k by auto
  ultimately show "predict_class [v] = Inr (int k)"
    using predict_class_eq [OF k] by simp
next
  assume "\<forall>j<length v. v ! j = v ! 0"
  then have "\<forall>j<length v. v ! j \<le> v ! 0" by simp
  with assms show "predict_class [v] = Inr 0"
    using predict_class_eq [of 0 v] by simp
qed

theorem label_resolution_argmax_witness:
  "[1, 7, 7 :: rat] \<noteq> []
   \<and> predict_class [[1, 7, 7 :: rat]] = Inr 1
   \<and> predict_class [[2, 9, 3 :: rat]] = Inr 1
   \<and> predict_class [[4, 4, 4 :: rat]] = Inr 0"
  using label_resolution_argmax [of "[1, 7, 7 :: rat]"]
        label_resolution_argmax [of "[2, 9, 3 :: rat]"]
        label_resolution_argmax [of "[4, 4, 4 :: rat]"]
  by (simp add: predict_class_def squeeze_def max0_def)

subsection \<open>Shape of the preprocessed tensor\<close>

text \<open>
  C2. For every RGB image with both sides positive (so that the resize can divide),
  the transform \<open>t\<close> of \<open>preproc\<close> returns a tensor of shape (3, 224, 224), whatever the
  image's size; \<open>preproc\<close> itself returns this tensor under one more leading dimension
  of size 1.
\<close>

theorem preprocessing_shape:
  assumes "im_mode im = RGB" and "0 < fst (im_size im)" and "0 < snd (im_size im)"
  shows "(\<exists>t. Compose rs preproc_t (Img im) = Inr (Tns t) \<and> shape t = [3, 224, 224])
       \<and> (img st = Some im \<longrightarrow> (\<exists>t. preproc rs st x = Inr t \<and> shape t = [1, 3, 224, 224]))"
proof -
  from resize_ok [OF assms(2,3)] obtain r where
    r: "resize rs 256 im = Inr r" "im_mode r = im_mode im" by blast
  have m: "im_mode r = RGB" using r assms by simp
  show ?thesis
    using Compose_preproc_t [OF r(1)] normalize_rgb [OF m]
    by (simp add: preproc_def unsqueeze0_def)
qed

theorem preprocessing_shape_witness:
  "im_mode sample_image = RGB \<and> im_size sample_image = (640, 480)
   \<and> img loaded = Some sample_image
   \<and> (\<exists>t. Compose nearest preproc_t (Img sample_image) = Inr (Tns t) \<and> shape t = [3, 224, 224])
   \<and> (\<exists>t. preproc nearest loaded () = Inr t \<and> shape t = [1, 3, 224, 224])"
  using preprocessing_shape [where im = sample_image and rs = nearest
                                 and st = loaded and x = "()"]
  by (simp add: sample_image_def loaded_fields)

subsection \<open>Loading a label table of the wrong shape\<close>

text \<open>
  C3, as stated, fails: a server that answers with the bare array \<open>[]\<close> makes the cell
  end without an exception, and \<open>class_idx\<close> is bound to the empty list.
\<close>

theorem bare_array_is_accepted:
  "fst (load_class_idx bare_array_lib (fresh :: unit nb_state)) = Inr PNone
   \<and> class_idx (snd (load_class_idx bare_array_lib (fresh :: unit nb_state))) = Some (PList [])"
  by (simp add: load_class_idx_def bare_array_lib_def sample_lib_def fresh_def sample_body_def
                Let_def)

text \<open>
  C3, amended. The cell checks no shape: whatever value the decoder returns is bound to
  \<open>class_idx\<close> and no exception is raised. The only failures are those of the fetch and
  of the decoder; after one, \<open>class_idx\<close> and every other variable but \<open>url\<close> are as
  they were, while the imports and the assignment to \<open>url\<close>, which come first, have
  taken effect. At the lookup, a value that is not a dict raises TypeError; a dict is
  looked up whatever its entries are: a missing key raises KeyError, and a stored
  value is returned as it is.
\<close>

theorem load_class_idx_binds_any_value:
  "(urlopen_read lib class_index_url = Inr body \<and> json_loads lib body = Inr v \<longrightarrow>
      load_class_idx lib st
      = (Inr PNone,
         st\<lparr>modules := insert ''urllib'' (insert ''json'' (modules st)),
             url := Some class_index_url, class_idx := Some v\<rparr>))
   \<and> (urlopen_read lib class_index_url = Inl e
        \<or> (urlopen_read lib class_index_url = Inr body \<and> json_loads lib body = Inl e) \<longrightarrow>
      load_class_idx lib st
      = (Inl e,
         st\<lparr>modules := insert ''urllib'' (insert ''json'' (modules st)),
             url := Some class_index_url\<rparr>))
   \<and> ((\<forall>kvs. tbl \<noteq> PDict kvs) \<longrightarrow> lookup_label tbl i = Inl TypeError)
   \<and> (map_of kvs (str_int i) = None \<longrightarrow>
        lookup_label (PDict kvs) i = Inl (KeyError (str_int i)))
   \<and> (map_of kvs (str_int i) = Some w \<longrightarrow> lookup_label (PDict kvs) i = Inr w)"
proof -
  have "lookup_label tbl i = Inl TypeError" if "\<forall>kvs. tbl \<noteq> PDict kvs"
    using that by (cases tbl) (simp_all add: lookup_label_def)
  then show ?thesis
    by (auto simp: load_class_idx_def lookup_label_def Let_def)
qed

theorem load_class_idx_witness:
  "load_class_idx bare_array_lib (fresh :: unit nb_state)
     = (Inr PNone, fresh\<lparr>modules := {''urllib'', ''json''}, url := Some class_index_url,
                         class_idx := Some (PList [])\<rparr>)
   \<and> load_class_idx sample_lib (fresh :: unit nb_state)
     = (Inr PNone, fresh\<lparr>modules := {''urllib'', ''json''}, url := Some class_index_url,
                         class_idx := Some (PDict [(''208'', sample_entry)])\<rparr>)
   \<and> load_class_idx offline_lib (fresh :: unit nb_state)
     = (Inl URLError, fresh\<lparr>modules := {''urllib'', ''json''}, url := Some class_index_url\<rparr>)
   \<and> load_class_idx html_lib (fresh :: unit nb_state)
     = (Inl JSONDecodeError,
        fresh\<lparr>modules := {''urllib'', ''json''}, url := Some class_index_url\<rparr>)
   \<and> lookup_label (PList []) 208 = Inl TypeError
   \<and> lookup_label misshapen_table 7 = Inl (KeyError ''7'')
   \<and> lookup_label misshapen_table 208 = Inr (PInt 5)"
proof -
  have s7: "str_int 7 = ''7''"
    by (simp add: str_int_def str_nat.simps digit_char_def)
  have f: "modules (fresh :: unit nb_state) = {}" by (simp add: fresh_def)
  show ?thesis
    using load_class_idx_binds_any_value
            [where lib = bare_array_lib and body = "''[]''" and v = "PList []"
               and st = "fresh :: unit nb_state" and tbl = "PList []" and i = 208
               and kvs = "[(''208'', PInt 5)]" and w = "PInt 5"]
          load_class_idx_binds_any_value
            [where lib = sample_lib and body = sample_body
               and v = "PDict [(''208'', sample_entry)]"
               and st = "fresh :: unit nb_state" and i = 7 and kvs = "[(''208'', PInt 5)]"]
          load_class_idx_binds_any_value
            [where lib = offline_lib and e = URLError and st = "fresh :: unit nb_state"]
          load_class_idx_binds_any_value
            [where lib = html_lib and body = "''<html></html>''" and e = JSONDecodeError
               and st = "fresh :: unit nb_state"]
    by (simp add: bare_array_lib_def sample_lib_def sample_body_def offline_lib_def
                  html_lib_def misshapen_table_def str_int_208 s7 f)
qed

subsection \<open>Lookup outside the table\<close>

text \<open>
  C4. \<open>class_idx[str(class_id)]\<close> on a label table whose keys are the decimal strings
  of 0..999: an index outside 0..999 raises KeyError, which is a LookupError, with the
  missing key; an index inside returns the entry stored under its key.
\<close>

theorem lookup_outside_domain_raises_KeyError:
  assumes "fst ` set kvs = str_int ` {0..999}"
  shows "(i \<notin> {0..999} \<longrightarrow>
            lookup_label (PDict kvs) i = Inl (KeyError (str_int i))
            \<and> is_LookupError (KeyError (str_int i)))
       \<and> (i \<in> {0..999} \<longrightarrow>
            (\<exists>p. map_of kvs (str_int i) = Some p \<and> lookup_label (PDict kvs) i = Inr p))"
proof (intro conjI impI)
  assume out: "i \<notin> {0..999}"
  have "str_int i \<notin> fst ` set kvs"
  proof
    assume "str_int i \<in> fst ` set kvs"
    with assms obtain j where "j \<in> {0..999}" "str_int i = str_int j" by auto
    with str_int_inj [of i j] out show False by simp
  qed
  then have "map_of kvs (str_int i) = None" by (simp add: map_of_eq_None_iff)
  then show "lookup_label (PDict kvs) i = Inl (KeyError (str_int i))"
    by (simp add: lookup_label_def)
next
  show "is_LookupError (KeyError (str_int i))" by simp
next
  assume "i \<in> {0..999}"
  with assms have "str_int i \<in> fst ` set kvs" by blast
  then obtain p where "map_of kvs (str_int i) = Some p"
    by (metis map_of_eq_None_iff not_Some_eq)
  then show "\<exists>p. map_of kvs (str_int i) = Some p \<and> lookup_label (PDict kvs) i = Inr p"
    by (simp add: lookup_label_def)
qed

theorem lookup_outside_domain_witness:
  "fst ` set sample_table = str_int ` {0..999}
   \<and> lookup_label (PDict sample_table) 1000 = Inl (KeyError ''1000'')
   \<and> lookup_label (PDict sample_table) (- 1) = Inl (KeyError ''-1'')
   \<and> lookup_label (PDict sample_table) 208 = Inr (PList [PStr ''n'', PStr ''208''])"
proof -
  have s1000: "str_int 1000 = ''1000''"
    by (simp add: str_int_def str_nat.simps digit_char_def)
  have sm1: "str_int (- 1) = ''-1''"
    by (simp add: str_int_def str_nat.simps digit_char_def)
  have l208: "map_of sample_table (str_int 208) = Some (PList [PStr ''n'', PStr ''208''])"
    using sample_table_lookup [of 208] by (simp add: str_int_208)
  show ?thesis
    using lookup_outside_domain_raises_KeyError [OF sample_table_keys, of 1000]
          lookup_outside_domain_raises_KeyError [OF sample_table_keys, of "- 1"]
          lookup_outside_domain_raises_KeyError [OF sample_table_keys, of 208]
          sample_table_keys s1000 sm1 l208
    by simp
qed

subsection \<open>Repeated runs\<close>

text \<open>
  C5. With the model in evaluation mode (as the load cell leaves it): when an inference
  cell has returned a value, running it again returns the same value with the same
  output (scores and class index), and \<open>preproc\<close> returns in the later state what it
  returned in the earlier one, whatever its argument. More generally, two inference
  cells that return, in any two states with the same image and the same weights,
  produce the same scores and the same class index. Tensor elements are exact
  rationals here; the rounding of 32-bit floats is not modelled.
\<close>

theorem repeated_inference_same_scores:
  assumes "model st = Some m" and "\<not> training m" and "infer lib st = (Inr v, st1)"
  shows "(\<exists>st2. infer lib st1 = (Inr v, st2) \<and> output st2 = output st1
               \<and> class_id st2 = class_id st1)
       \<and> preproc (resample lib) st1 (b :: 'b) = preproc (resample lib) st (a :: 'a)
       \<and> (img st' = img st \<and> model st' = Some m' \<and> \<not> training m'
            \<and> state_dict m' = state_dict m \<and> infer lib st' = (Inr v', st1') \<longrightarrow>
            map_option data (output st1') = map_option data (output st1)
            \<and> class_id st1' = class_id st1)"
proof (intro conjI impI)
  show "\<exists>st2. infer lib st1 = (Inr v, st2) \<and> output st2 = output st1
               \<and> class_id st2 = class_id st1"
    by (rule infer_twice [OF assms])
next
  from infer_returns [OF assms(3,1)] have "img st1 = img st" by blast
  then show "preproc (resample lib) st1 b = preproc (resample lib) st a"
    by (rule preproc_reads_img)
next
  assume h: "img st' = img st \<and> model st' = Some m' \<and> \<not> training m'
            \<and> state_dict m' = state_dict m \<and> infer lib st' = (Inr v', st1')"
  with infer_same_scores [of st' st m m' lib v st1 v' st1'] assms
  show "map_option data (output st1') = map_option data (output st1)" by blast
  from h infer_same_scores [of st' st m m' lib v st1 v' st1'] assms
  show "class_id st1' = class_id st1" by blast
qed

theorem repeated_inference_witness:
  "model loaded = Some \<lparr>training = False, state_dict = (), params_require_grad = True\<rparr>
   \<and> fst (infer sample_lib loaded) = Inr sample_entry
   \<and> fst (infer sample_lib (snd (infer sample_lib loaded))) = Inr sample_entry
   \<and> output (snd (infer sample_lib (snd (infer sample_lib loaded))))
       = output (snd (infer sample_lib loaded))
   \<and> output (snd (infer sample_lib loaded))
       = Some \<lparr>data = [sample_scores], requires_grad = True\<rparr>
   \<and> preproc nearest (snd (infer sample_lib loaded)) (0 :: int) = preproc nearest loaded ()
   \<and> img relabelled = img loaded
   \<and> fst (infer sample_lib relabelled) = Inr (PList [PStr ''n'', PStr ''208''])
   \<and> map_option data (output (snd (infer sample_lib relabelled)))
       = map_option data (output (snd (infer sample_lib loaded)))"
proof -
  have i: "infer sample_lib loaded = (Inr sample_entry, snd (infer sample_lib loaded))"
    using infer_loaded(1) by (simp add: prod_eq_iff)
  have j: "infer sample_lib relabelled
           = (Inr (PList [PStr ''n'', PStr ''208'']), snd (infer sample_lib relabelled))"
    using infer_relabelled(1) by (simp add: prod_eq_iff)
  have res: "resample sample_lib = nearest" by (simp add: sample_lib_def)
  note t = repeated_inference_same_scores
             [OF loaded_fields(1) _ i,
              where st' = relabelled and v' = "PList [PStr ''n'', PStr ''208'']"
                and ?st1' = "snd (infer sample_lib relabelled)"
                and m' = "\<lparr>training = False, state_dict = (), params_require_grad = True\<rparr>"
                and a = "()" and b = "0 :: int", simplified]
  from t obtain st2 where
    st2: "infer sample_lib (snd (infer sample_lib loaded)) = (Inr sample_entry, st2)"
         "output st2 = output (snd (infer sample_lib loaded))"
    by blast
  from t have p: "preproc nearest (snd (infer sample_lib loaded)) (0 :: int)
                  = preproc nearest loaded ()"
    by (simp add: res)
  from t j have d: "map_option data (output (snd (infer sample_lib relabelled)))
                    = map_option data (output (snd (infer sample_lib loaded)))"
    by (simp add: relabelled_fields loaded_fields)
  from st2 p d show ?thesis
    using infer_loaded infer_relabelled loaded_fields relabelled_fields by simp
qed

subsection \<open>The model stays frozen\<close>

text \<open>
  C6, as stated, fails: in the state that the notebook's first three cells leave,
  gradient mode is on, the inference cell returns the label, and its output asks for
  gradients.
\<close>

theorem inference_tracks_gradients:
  "grad_enabled loaded
   \<and> fst (infer sample_lib loaded) = Inr sample_entry
   \<and> map_option requires_grad (output (snd (infer sample_lib loaded))) = Some True"
  by (simp add: infer_loaded loaded_fields)

text \<open>
  C6, amended. No cell other than the load changes the model, as long as it is in
  evaluation mode, and no cell changes torch's gradient mode, which is on in a new
  kernel. An inference cell hands at most one tensor to the forward function; when it
  returns a value, in evaluation mode, it has handed over exactly one, the tensor that
  \<open>preproc\<close> returned, the scores of its output are the result of that evaluation, the
  output asks for gradients whenever gradient mode is on and the parameters do, the
  class index is computed from \<open>output.data\<close>, and the model is as before. The load cell
  leaves the module in evaluation mode with the pretrained weights, its parameters
  asking for gradients.
\<close>

theorem inference_keeps_model_frozen:
  "(model st = Some m \<and> \<not> training m \<and> list_all (\<lambda>c. c \<noteq> LoadModel) cs \<longrightarrow>
      model (run_cells lib cs st) = Some m)
   \<and> grad_enabled (run_cells lib cs st) = grad_enabled st
   \<and> grad_enabled (fresh :: 'w nb_state)
   \<and> (\<exists>xs. forward_log (snd (infer lib st)) = forward_log st @ xs \<and> length xs \<le> 1)
   \<and> (infer lib st = (Inr v, st') \<and> model st = Some m \<and> \<not> training m \<longrightarrow>
        (\<exists>a x out ci.
            img st = Some a \<and> preproc (resample lib) st a = Inr x
            \<and> forward_log st' = forward_log st @ [x]
            \<and> eval_forward lib (state_dict m) x = Inr (data out)
            \<and> output st' = Some out
            \<and> requires_grad out = (grad_enabled st \<and> params_require_grad m)
            \<and> predict_class (data out) = Inr ci \<and> class_id st' = Some ci
            \<and> model st' = Some m))
   \<and> (load_model lib sa = (Inr va, sb) \<longrightarrow>
        (\<exists>w. pretrained_weights lib = Inr w
            \<and> model sb = Some \<lparr>training = False, state_dict = w, params_require_grad = True\<rparr>))"
proof -
  have ret: "\<exists>a x out ci.
            img st = Some a \<and> preproc (resample lib) st a = Inr x
            \<and> forward_log st' = forward_log st @ [x]
            \<and> eval_forward lib (state_dict m) x = Inr (data out)
            \<and> output st' = Some out
            \<and> requires_grad out = (grad_enabled st \<and> params_require_grad m)
            \<and> predict_class (data out) = Inr ci \<and> class_id st' = Some ci
            \<and> model st' = Some m"
    if "infer lib st = (Inr v, st')" "model st = Some m" "\<not> training m"
    using infer_returns [OF that(1,2)] that(3) by blast
  have fr: "grad_enabled (fresh :: 'w nb_state)" by (simp add: fresh_def)
  show ?thesis
    using run_cells_model_frozen [of st m cs lib] run_cells_grad_enabled [of lib cs st]
          infer_forward_log [of lib st] ret fr load_model_loaded [of lib sa va sb]
    by blast
qed

theorem inference_keeps_model_frozen_witness:
  "model loaded = Some \<lparr>training = False, state_dict = (), params_require_grad = True\<rparr>
   \<and> model (run_cells sample_lib (drop 3 notebook) loaded)
       = Some \<lparr>training = False, state_dict = (), params_require_grad = True\<rparr>
   \<and> grad_enabled (run_cells sample_lib (drop 3 notebook) loaded) = True
   \<and> fst (infer sample_lib loaded) = Inr sample_entry
   \<and> forward_log loaded = []
   \<and> length (forward_log (snd (infer sample_lib loaded))) = 1
   \<and> output (snd (infer sample_lib loaded))
       = Some \<lparr>data = [sample_scores], requires_grad = True\<rparr>
   \<and> predict_class [sample_scores] = Inr 208
   \<and> class_id (snd (infer sample_lib loaded)) = Some 208
   \<and> map_option state_dict (model (snd (load_model sample_lib (fresh :: unit nb_state)))) = Some ()"
proof -
  have i: "infer sample_lib loaded = (Inr sample_entry, snd (infer sample_lib loaded))"
    using infer_loaded(1) by (simp add: prod_eq_iff)
  have l: "load_model sample_lib (fresh :: unit nb_state)
           = (Inr PNone, snd (load_model sample_lib (fresh :: unit nb_state)))"
    by (simp add: load_model_fresh)
  have n: "list_all (\<lambda>c. c \<noteq> LoadModel) (drop 3 notebook)"
    by (simp add: notebook_def)
  from inference_keeps_model_frozen
          [where st = loaded and lib = sample_lib and cs = "drop 3 notebook"
             and m = "\<lparr>training = False, state_dict = (), params_require_grad = True\<rparr>"
             and v = sample_entry and st' = "snd (infer sample_lib loaded)"
             and sa = "fresh :: unit nb_state" and va = PNone
             and sb = "snd (load_model sample_lib (fresh :: unit nb_state))"]
  have "model (run_cells sample_lib (drop 3 notebook) loaded)
          = Some \<lparr>training = False, state_dict = (), params_require_grad = True\<rparr>"
       "grad_enabled (run_cells sample_lib (drop 3 notebook) loaded) = True"
    using n loaded_fields(1,4) by auto
  then show ?thesis
    using infer_loaded loaded_fields load_model_fresh sample_scores_predict by simp
qed

subsection \<open>The steps of the transform\<close>

text \<open>
  C7. The transform list of \<open>preproc\<close> is resize 256, centre crop 224, tensor
  conversion, normalisation with the stated constants, and on every RGB image with
  positive sides they take effect in this order: the resized image has shorter side 256;
  the crop is the 224 x 224 window of the resized image that starts at half the surplus
  of each side; each byte is divided by 255 and lies in [0,1]; channel \<open>c\<close> of the result
  is that value minus \<open>mean[c]\<close>, divided by \<open>std[c]\<close>. When the global \<open>img\<close> is this
  image, \<open>preproc\<close> returns a tensor whose one batch entry holds exactly these values.
\<close>

theorem preprocessing_steps_in_order:
  assumes "im_mode im = RGB" and "0 < fst (im_size im)" and "0 < snd (im_size im)"
  shows "preproc_t = [Resize 256, CenterCrop 224, ToTensor,
                      Normalize [0.485, 0.456, 0.406] [0.229, 0.224, 0.225]]
       \<and> (\<exists>r. resize rs 256 im = Inr r
            \<and> min (fst (im_size r)) (snd (im_size r)) = 256
            \<and> im_size (center_crop 224 r) = (224, 224)
            \<and> (\<forall>c x y. x < 224 \<and> y < 224 \<longrightarrow>
                  px (center_crop 224 r) c x y
                  = px r c (x + nat (round_half (int (fst (im_size r)) - 224)))
                           (y + nat (round_half (int (snd (im_size r)) - 224))))
            \<and> (\<forall>c y x. elem (to_tensor (center_crop 224 r)) [c, y, x]
                          = rat_of_nat (unat (px (center_crop 224 r) c x y)) / 255
                     \<and> 0 \<le> elem (to_tensor (center_crop 224 r)) [c, y, x]
                     \<and> elem (to_tensor (center_crop 224 r)) [c, y, x] \<le> 1)
            \<and> (\<exists>t. Compose rs preproc_t (Img im) = Inr (Tns t)
                 \<and> (\<forall>y x.
                       elem t [0, y, x] = (elem (to_tensor (center_crop 224 r)) [0, y, x] - 0.485) / 0.229
                     \<and> elem t [1, y, x] = (elem (to_tensor (center_crop 224 r)) [1, y, x] - 0.456) / 0.224
                     \<and> elem t [2, y, x] = (elem (to_tensor (center_crop 224 r)) [2, y, x] - 0.406) / 0.225)
                 \<and> (img st = Some im \<longrightarrow>
                       (\<exists>p. preproc rs st arg = Inr p
                           \<and> (\<forall>c y x. elem p [0, c, y, x] = elem t [c, y, x])))))"
proof -
  from resize_ok [OF assms(2,3)] obtain r where
    r: "resize rs 256 im = Inr r" "im_mode r = im_mode im" by blast
  have m: "im_mode r = RGB" using r assms by simp
  have side: "min (fst (im_size r)) (snd (im_size r)) = 256"
    by (rule resize_shorter_side [OF r(1)])
  then have big: "224 \<le> fst (im_size r)" "224 \<le> snd (im_size r)" by auto
  have crop: "\<forall>c x y. x < 224 \<and> y < 224 \<longrightarrow>
                  px (center_crop 224 r) c x y
                  = px r c (x + nat (round_half (int (fst (im_size r)) - 224)))
                           (y + nat (round_half (int (snd (im_size r)) - 224)))"
    using center_crop_px [OF big] by simp
  have scale: "\<forall>c y x. elem (to_tensor (center_crop 224 r)) [c, y, x]
                          = rat_of_nat (unat (px (center_crop 224 r) c x y)) / 255
                     \<and> 0 \<le> elem (to_tensor (center_crop 224 r)) [c, y, x]
                     \<and> elem (to_tensor (center_crop 224 r)) [c, y, x] \<le> 1"
  proof (intro allI conjI)
    fix c y x
    show "elem (to_tensor (center_crop 224 r)) [c, y, x]
          = rat_of_nat (unat (px (center_crop 224 r) c x y)) / 255"
      by (simp add: to_tensor_def)
    show "0 \<le> elem (to_tensor (center_crop 224 r)) [c, y, x]"
      using to_tensor_unit_interval by blast
    show "elem (to_tensor (center_crop 224 r)) [c, y, x] \<le> 1"
      using to_tensor_unit_interval by blast
  qed
  have norm: "\<exists>t. Compose rs preproc_t (Img im) = Inr (Tns t)
                 \<and> (\<forall>y x.
                       elem t [0, y, x] = (elem (to_tensor (center_crop 224 r)) [0, y, x] - 0.485) / 0.229
                     \<and> elem t [1, y, x] = (elem (to_tensor (center_crop 224 r)) [1, y, x] - 0.456) / 0.224
                     \<and> elem t [2, y, x] = (elem (to_tensor (center_crop 224 r)) [2, y, x] - 0.406) / 0.225)
                 \<and> (img st = Some im \<longrightarrow>
                       (\<exists>p. preproc rs st arg = Inr p
                           \<and> (\<forall>c y x. elem p [0, c, y, x] = elem t [c, y, x])))"
    using Compose_preproc_t [OF r(1)] normalize_rgb [OF m]
    by (simp add: preproc_mean_def preproc_std_def preproc_def unsqueeze0_def)
  have list: "preproc_t = [Resize 256, CenterCrop 224, ToTensor,
                      Normalize [0.485, 0.456, 0.406] [0.229, 0.224, 0.225]]"
    by (simp add: preproc_t_def preproc_mean_def preproc_std_def)
  from r(1) side center_crop_size [of 224 r] crop scale norm list show ?thesis by blast
qed

theorem preprocessing_steps_witness:
  "im_mode sample_image = RGB \<and> im_size sample_image = (640, 480)
   \<and> (\<exists>r. resize nearest 256 sample_image = Inr r \<and> im_size r = (341, 256))
   \<and> (\<exists>t. Compose nearest preproc_t (Img sample_image) = Inr (Tns t)
          \<and> elem t [0, 0, 0] = (138 / 255 - 0.485) / 0.229
          \<and> elem t [1, 0, 0] = (139 / 255 - 0.456) / 0.224
          \<and> elem t [2, 0, 0] = (140 / 255 - 0.406) / 0.225)
   \<and> img loaded = Some sample_image
   \<and> (\<exists>p. preproc nearest loaded () = Inr p
          \<and> elem p [0, 0, 0, 0] = (138 / 255 - 0.485) / 0.229
          \<and> elem p [0, 1, 0, 0] = (139 / 255 - 0.456) / 0.224
          \<and> elem p [0, 2, 0, 0] = (140 / 255 - 0.406) / 0.225)"
proof -
  have a: "im_mode sample_image = RGB" "0 < fst (im_size sample_image)"
          "0 < snd (im_size sample_image)"
    by (simp_all add: sample_image_def)
  from preprocessing_steps_in_order
         [OF a, where rs = nearest and st = loaded and arg = "()"] loaded_fields(3)
  obtain r t p where
    pp: "preproc nearest loaded () = Inr p"
        "\<forall>c y x. elem p [0, c, y, x] = elem t [c, y, x]" and
    r: "resize nearest 256 sample_image = Inr r" and
    t: "Compose nearest preproc_t (Img sample_image) = Inr (Tns t)"
       "\<forall>y x. elem t [0, y, x] = (elem (to_tensor (center_crop 224 r)) [0, y, x] - 0.485) / 0.229
            \<and> elem t [1, y, x] = (elem (to_tensor (center_crop 224 r)) [1, y, x] - 0.456) / 0.224
            \<and> elem t [2, y, x] = (elem (to_tensor (center_crop 224 r)) [2, y, x] - 0.406) / 0.225"
    by blast
  from r have r': "r = pil_resize nearest (341, 256) sample_image"
    by (simp add: sample_image_resized)
  have "elem t [0, 0, 0] = (elem (to_tensor (center_crop 224 r)) [0, 0, 0] - 0.485) / 0.229"
    using t(2) by blast
  also have "elem (to_tensor (center_crop 224 r)) [0, 0, 0] = 138 / 255"
    using sample_image_scaled [of 0] unfolding r' by simp
  finally have e0: "elem t [0, 0, 0] = (138 / 255 - 0.485) / 0.229" .
  have "elem t [1, 0, 0] = (elem (to_tensor (center_crop 224 r)) [1, 0, 0] - 0.456) / 0.224"
    using t(2) by blast
  also have "elem (to_tensor (center_crop 224 r)) [1, 0, 0] = 139 / 255"
    using sample_image_scaled [of 1] unfolding r' by simp
  finally have e1: "elem t [1, 0, 0] = (139 / 255 - 0.456) / 0.224" .
  have "elem t [2, 0, 0] = (elem (to_tensor (center_crop 224 r)) [2, 0, 0] - 0.406) / 0.225"
    using t(2) by blast
  also have "elem (to_tensor (center_crop 224 r)) [2, 0, 0] = 140 / 255"
    using sample_image_scaled [of 2] unfolding r' by simp
  finally have e2: "elem t [2, 0, 0] = (140 / 255 - 0.406) / 0.225" .
  have sz: "im_mode sample_image = RGB \<and> im_size sample_image = (640, 480)"
    by (simp add: sample_image_def)
  have rs: "\<exists>r. resize nearest 256 sample_image = Inr r \<and> im_size r = (341, 256)"
    using r r' by (simp add: pil_resize_def)
  have "elem p [0, 0, 0, 0] = elem t [0, 0, 0]" "elem p [0, 1, 0, 0] = elem t [1, 0, 0]"
       "elem p [0, 2, 0, 0] = elem t [2, 0, 0]"
    using pp(2) by blast+
  with e0 e1 e2 have
    q: "elem p [0, 0, 0, 0] = (138 / 255 - 0.485) / 0.229"
       "elem p [0, 1, 0, 0] = (139 / 255 - 0.456) / 0.224"
       "elem p [0, 2, 0, 0] = (140 / 255 - 0.406) / 0.225"
    by (simp_all only:)
  from sz rs t(1) e0 e1 e2 loaded_fields(3) pp(1) q show ?thesis by blast
qed

subsection \<open>The Eskimo dog example\<close>



subsection \<open>Grey images\<close>

text \<open>
  C9. For every grey image with positive sides: coercing it to RGB and applying the
  transform of \<open>preproc\<close> gives the same 3-channel tensor as resizing, cropping and
  scaling the single channel, replicating it three times and normalising.
\<close>

theorem grey_coercion_replicates_channel:
  assumes "im_mode g = L" and "0 < fst (im_size g)" and "0 < snd (im_size g)"
  shows "\<exists>r. resize rs 256 g = Inr r
           \<and> shape (to_tensor (center_crop 224 r)) = [1, 224, 224]
           \<and> Compose rs preproc_t (Img (convert_RGB g))
               = map_sum id Tns (normalize preproc_mean preproc_std
                                  (replicate_channel 3 (to_tensor (center_crop 224 r))))
           \<and> (\<exists>t. Compose rs preproc_t (Img (convert_RGB g)) = Inr (Tns t)
                  \<and> shape t = [3, 224, 224]
                  \<and> (\<forall>y x.
                        elem t [0, y, x] = (elem (to_tensor (center_crop 224 r)) [0, y, x] - 0.485) / 0.229
                      \<and> elem t [1, y, x] = (elem (to_tensor (center_crop 224 r)) [0, y, x] - 0.456) / 0.224
                      \<and> elem t [2, y, x] = (elem (to_tensor (center_crop 224 r)) [0, y, x] - 0.406) / 0.225)
                  \<and> (Image_open lib path = Inr g \<longrightarrow>
                        preproc rs (snd (open_image lib path st)) x = Inr (unsqueeze0 t)))"
proof -
  from resize_ok [OF assms(2,3)] obtain r where
    r: "resize rs 256 g = Inr r" "im_mode r = im_mode g" by blast
  have m: "im_mode (center_crop 224 r) = L"
    using r assms by (simp add: center_crop_mode)
  have sh: "shape (to_tensor (center_crop 224 r)) = [1, 224, 224]"
    using m by (simp add: shape_to_tensor center_crop_size)
  have rc: "resize rs 256 (convert_RGB g) = Inr (convert_RGB r)"
    using resize_convert_RGB [OF assms(1)] r by simp
  have eq: "to_tensor (center_crop 224 (convert_RGB r))
            = replicate_channel 3 (to_tensor (center_crop 224 r))"
    using r assms center_crop_convert_RGB [of r 224] to_tensor_convert_RGB [OF m] by simp
  have comp: "Compose rs preproc_t (Img (convert_RGB g))
               = map_sum id Tns (normalize preproc_mean preproc_std
                                  (replicate_channel 3 (to_tensor (center_crop 224 r))))"
    using Compose_preproc_t [OF rc] eq by simp
  have "length preproc_mean = 3" "length preproc_std = 3"
    by (simp_all add: preproc_mean_def preproc_std_def)
  then have res: "\<exists>t. Compose rs preproc_t (Img (convert_RGB g)) = Inr (Tns t)
                  \<and> shape t = [3, 224, 224]
                  \<and> (\<forall>y x.
                        elem t [0, y, x] = (elem (to_tensor (center_crop 224 r)) [0, y, x] - 0.485) / 0.229
                      \<and> elem t [1, y, x] = (elem (to_tensor (center_crop 224 r)) [0, y, x] - 0.456) / 0.224
                      \<and> elem t [2, y, x] = (elem (to_tensor (center_crop 224 r)) [0, y, x] - 0.406) / 0.225)
                  \<and> (Image_open lib path = Inr g \<longrightarrow>
                        preproc rs (snd (open_image lib path st)) x = Inr (unsqueeze0 t))"
    using sh unfolding comp
    by (simp add: normalize_def replicate_channel_def preproc_mean_def preproc_std_def
                  preproc_def open_image_def comp)
  from r(1) sh comp res show ?thesis by blast
qed

theorem grey_coercion_witness:
  "im_mode sample_grey = L \<and> im_size sample_grey = (300, 500)
   \<and> (\<exists>t. Compose nearest preproc_t (Img (convert_RGB sample_grey)) = Inr (Tns t)
          \<and> shape t = [3, 224, 224]
          \<and> elem t [0, 0, 0] = (136 / 255 - 0.485) / 0.229
          \<and> elem t [1, 0, 0] = (136 / 255 - 0.456) / 0.224
          \<and> elem t [2, 0, 0] = (136 / 255 - 0.406) / 0.225
          \<and> preproc nearest (snd (open_image grey_lib ''../data/imgs/img.jpg''
                                      (fresh :: unit nb_state))) ()
              = Inr (unsqueeze0 t))"
proof -
  have a: "im_mode sample_grey = L" "0 < fst (im_size sample_grey)"
          "0 < snd (im_size sample_grey)"
    by (simp_all add: sample_grey_def)
  have o: "Image_open grey_lib ''../data/imgs/img.jpg'' = Inr sample_grey"
    by (simp add: grey_lib_def)
  from grey_coercion_replicates_channel
         [OF a, where rs = nearest and lib = grey_lib and path = "''../data/imgs/img.jpg''"
            and st = "fresh :: unit nb_state" and x = "()"] o
  obtain r t where
    r: "resize nearest 256 sample_grey = Inr r" and
    t: "Compose nearest preproc_t (Img (convert_RGB sample_grey)) = Inr (Tns t)"
       "shape t = [3, 224, 224]"
       "\<forall>y x. elem t [0, y, x] = (elem (to_tensor (center_crop 224 r)) [0, y, x] - 0.485) / 0.229
            \<and> elem t [1, y, x] = (elem (to_tensor (center_crop 224 r)) [0, y, x] - 0.456) / 0.224
            \<and> elem t [2, y, x] = (elem (to_tensor (center_crop 224 r)) [0, y, x] - 0.406) / 0.225"
       "preproc nearest (snd (open_image grey_lib ''../data/imgs/img.jpg''
                                (fresh :: unit nb_state))) ()
        = Inr (unsqueeze0 t)"
    by blast
  from r have r': "r = pil_resize nearest (256, 426) sample_grey"
    by (simp add: sample_grey_resized)
  have g: "elem (to_tensor (center_crop 224 r)) [0, 0, 0] = 136 / 255"
    using sample_grey_scaled unfolding r' by simp
  have "elem t [0, 0, 0] = (elem (to_tensor (center_crop 224 r)) [0, 0, 0] - 0.485) / 0.229"
    using t(3) by blast
  also note g
  finally have e0: "elem t [0, 0, 0] = (136 / 255 - 0.485) / 0.229" .
  have "elem t [1, 0, 0] = (elem (to_tensor (center_crop 224 r)) [0, 0, 0] - 0.456) / 0.224"
    using t(3) by blast
  also note g
  finally have e1: "elem t [1, 0, 0] = (136 / 255 - 0.456) / 0.224" .
  have "elem t [2, 0, 0] = (elem (to_tensor (center_crop 224 r)) [0, 0, 0] - 0.406) / 0.225"
    using t(3) by blast
  also note g
  finally have e2: "elem t [2, 0, 0] = (136 / 255 - 0.406) / 0.225" .
  have sz: "im_mode sample_grey = L \<and> im_size sample_grey = (300, 500)"
    by (simp add: sample_grey_def)
  from sz t(1,2,4) e0 e1 e2 show ?thesis by blast
qed

subsection \<open>The ignored argument\<close>

text \<open>
  C10. \<open>preproc\<close> ignores its argument and reads the global \<open>img\<close>: in two states
  that bind \<open>img\<close> to the same image (or both leave it unbound), any two arguments, of
  any types, give the same result, be it a tensor or an exception.
\<close>

theorem preproc_ignores_argument:
  assumes "img st = img st'"
  shows "preproc rs st (a :: 'a) = preproc rs st' (b :: 'b)"
  using assms by (simp add: preproc_def)

theorem preproc_ignores_argument_witness:
  "img loaded = img (snd (infer sample_lib loaded))
   \<and> preproc nearest loaded sample_grey = preproc nearest (snd (infer sample_lib loaded)) (0 :: int)
   \<and> (\<exists>t. preproc nearest loaded sample_grey = Inr t \<and> shape t = [1, 3, 224, 224])"
proof -
  have same: "img loaded = img (snd (infer sample_lib loaded))"
    by (simp add: infer_loaded loaded_fields)
  have "\<exists>t. preproc nearest loaded sample_grey = Inr t \<and> shape t = [1, 3, 224, 224]"
    by (rule preproc_sample [OF loaded_fields(3)])
  with same preproc_ignores_argument [OF same, of nearest sample_grey "0 :: int"]
  show ?thesis by blast
qed

end
